theory Spec2Isabelle
  imports Main
begin

section \<open>A client of the DEGIRO trading API\<close>

text \<open>
  The repository holds two near-duplicate implementations of one client. The first
  (the one that validates every response through \<open>checkSuccess(res, json, operation)\<close>
  and offers \<open>getTasks\<close>, \<open>getOrdersHistory\<close> and \<open>getTransactions\<close>) is embedded under
  the names of its functions. The second (raw logging, looser validation) is embedded
  under the same names with the suffix \<open>_loose\<close>, for the functions whose behaviour
  differs.

  Every operation of the client is a chain of promises over HTTP exchanges. The
  embedding threads an explicit client state (the \<open>session\<close> and \<open>urls\<close> objects of
  \<open>create\<close>, and the list of requests sent so far) through each operation; a rejected
  promise or a thrown exception is the \<open>Inl\<close> of a sum. Calls to \<open>log\<close> only print and
  are left out, except where the value \<open>log\<close> returns is used.
\<close>

subsection \<open>JavaScript values\<close>

text \<open>
  Values parsed from the vendor's JSON, and the primitive values the client holds.
  Numbers are the integers; non-integral numbers are outside the model.
\<close>

datatype jsvalue =
    JUndefined
  | JNull
  | JBool bool
  | JNum int
  | JStr string
  | JArr "jsvalue list"
  | JObj "(string \<times> jsvalue) list"

text \<open>
  Exceptions and rejections. The client throws plain \<open>Error\<close> objects that differ in
  their message only; each message is a constructor here, carrying the value the
  message is built from (where the source prints \<open>JSON.stringify(x)\<close>, the constructor
  carries \<open>x\<close>).
\<close>

datatype error =
    TypeError
  | ReferenceError
  | SyntaxError
  | FetchError
  | Error_text jsvalue
  | Error_status int string
  | Bad_result jsvalue
  | Tried_3_times jsvalue
  | Couldnt_find_all jsvalue
  | Unexpected_date_format jsvalue
  | Login_nok
  | Error_message jsvalue
  | Delete_order_failed

text \<open>
  \<^item> \<open>Error_text t\<close>: \<open>Error(json.errors[0].text)\<close> of \<open>checkSuccess\<close>;
  \<^item> \<open>Error_status s t\<close>: \<open>Error(res.status + ' - ' + res.statusText)\<close>;
  \<^item> \<open>Bad_result x\<close>: \<open>Error('Bad result: ' + JSON.stringify(x))\<close>;
  \<^item> \<open>Tried_3_times x\<close>: \<open>Error('Tried 3 times to get data, but nothing was returned: ' + ...)\<close>;
  \<^item> \<open>Couldnt_find_all x\<close>: \<open>Error("Couldn't find all requested info: " + ...)\<close>;
  \<^item> \<open>Unexpected_date_format x\<close>: \<open>Error('Unexpected date format: ' + x)\<close>;
  \<^item> \<open>Login_nok\<close>: \<open>Error('login nok')\<close>;
  \<^item> \<open>Error_message m\<close>: \<open>Error(res.message)\<close> of the second variant's \<open>checkSuccess\<close>;
  \<^item> \<open>Delete_order_failed\<close>: \<open>Error('delete order failed')\<close>;
  \<^item> \<open>FetchError\<close>: \<open>fetch\<close> itself rejected; \<open>SyntaxError\<close>: \<open>res.json()\<close> rejected.
\<close>

definition bindE :: "error + 'a \<Rightarrow> ('a \<Rightarrow> error + 'b) \<Rightarrow> error + 'b" where
  "bindE r f = (case r of Inl e \<Rightarrow> Inl e | Inr x \<Rightarrow> f x)"

fun mapE :: "('a \<Rightarrow> error + 'b) \<Rightarrow> 'a list \<Rightarrow> error + 'b list" where
  "mapE f [] = Inr []"
| "mapE f (x # xs) = bindE (f x) (\<lambda>y. bindE (mapE f xs) (\<lambda>ys. Inr (y # ys)))"

text \<open>Decimal rendering of a number, as string conversion prints an integer.\<close>

fun show_nat :: "nat \<Rightarrow> string" where
  "show_nat n =
     (if n < 10 then [''0123456789'' ! n]
      else show_nat (n div 10) @ [''0123456789'' ! (n mod 10)])"

declare show_nat.simps [simp del]

definition show_int :: "int \<Rightarrow> string" where
  "show_int i = (if i < 0 then CHR ''-'' # show_nat (nat (- i)) else show_nat (nat i))"

fun join_comma :: "string list \<Rightarrow> string" where
  "join_comma [] = []"
| "join_comma [s] = s"
| "join_comma (s # t # ss) = s @ '','' @ join_comma (t # ss)"

text \<open>
  \<open>toString\<close>: the conversion a template literal \<open>`${x}`\<close>, a string concatenation
  and a property key apply to a value.
\<close>

fun toString :: "jsvalue \<Rightarrow> string" where
  "toString JUndefined = ''undefined''"
| "toString JNull = ''null''"
| "toString (JBool b) = (if b then ''true'' else ''false'')"
| "toString (JNum n) = show_int n"
| "toString (JStr s) = s"
| "toString (JArr xs) =
     join_comma (map (\<lambda>x. if x = JUndefined \<or> x = JNull then [] else toString x) xs)"
| "toString (JObj kvs) = ''[object Object]''"

fun truthy :: "jsvalue \<Rightarrow> bool" where
  "truthy JUndefined = False"
| "truthy JNull = False"
| "truthy (JBool b) = b"
| "truthy (JNum n) = (n \<noteq> 0)"
| "truthy (JStr s) = (s \<noteq> [])"
| "truthy (JArr xs) = True"
| "truthy (JObj kvs) = True"

fun isArray :: "jsvalue \<Rightarrow> bool" where
  "isArray (JArr xs) = True"
| "isArray v = False"

text \<open>
  Objects are association lists whose keys are distinct, in insertion order; a read
  takes the first entry of a key. \<open>obj_set\<close> is the assignment \<open>o[k] = v\<close>.
\<close>

definition obj_get :: "(string \<times> 'a) list \<Rightarrow> string \<Rightarrow> 'a option" where
  "obj_get kvs k = map_of kvs k"

fun obj_set :: "(string \<times> 'a) list \<Rightarrow> string \<Rightarrow> 'a \<Rightarrow> (string \<times> 'a) list" where
  "obj_set [] k v = [(k, v)]"
| "obj_set ((k', v') # kvs) k v =
     (if k' = k then (k, v) # kvs else (k', v') # obj_set kvs k v)"

text \<open>
  \<open>get_prop v k\<close> is the read \<open>v.k\<close> for the property names the client reads (none of
  them is a property of arrays, strings, numbers or booleans): a \<open>TypeError\<close> on
  \<open>undefined\<close> and \<open>null\<close>, \<open>undefined\<close> where the property is missing.
\<close>

fun get_prop :: "jsvalue \<Rightarrow> string \<Rightarrow> error + jsvalue" where
  "get_prop JUndefined k = Inl TypeError"
| "get_prop JNull k = Inl TypeError"
| "get_prop (JObj kvs) k = Inr (case obj_get kvs k of None \<Rightarrow> JUndefined | Some x \<Rightarrow> x)"
| "get_prop v k = Inr JUndefined"

text \<open>\<open>get_index v i\<close> is the read \<open>v[i]\<close> at a literal index.\<close>

fun get_index :: "jsvalue \<Rightarrow> nat \<Rightarrow> error + jsvalue" where
  "get_index JUndefined i = Inl TypeError"
| "get_index JNull i = Inl TypeError"
| "get_index (JArr xs) i = Inr (if i < length xs then xs ! i else JUndefined)"
| "get_index (JStr s) i = Inr (if i < length s then JStr [s ! i] else JUndefined)"
| "get_index (JObj kvs) i =
     Inr (case obj_get kvs (show_nat i) of None \<Rightarrow> JUndefined | Some x \<Rightarrow> x)"
| "get_index v i = Inr JUndefined"

text \<open>\<open>has_prop v k\<close> is \<open>k in v\<close>, which throws on a primitive value.\<close>

fun has_prop :: "jsvalue \<Rightarrow> string \<Rightarrow> error + bool" where
  "has_prop (JObj kvs) k = Inr (obj_get kvs k \<noteq> None)"
| "has_prop (JArr xs) k = Inr False"
| "has_prop v k = Inl TypeError"

text \<open>
  \<open>loose_eq_str v s\<close> is \<open>v == s\<close> for the string literals the client compares with
  (\<open>'h'\<close>, \<open>'a_req'\<close>, \<open>'un'\<close>, \<open>'us'\<close>, \<open>'date'\<close>), none of which reads as a number: a
  string equals it when it is the same string, an array or object when its string
  conversion is, and nothing else does.
\<close>

fun loose_eq_str :: "jsvalue \<Rightarrow> string \<Rightarrow> bool" where
  "loose_eq_str (JStr t) s = (t = s)"
| "loose_eq_str (JArr xs) s = (toString (JArr xs) = s)"
| "loose_eq_str (JObj kvs) s = (toString (JObj kvs) = s)"
| "loose_eq_str v s = False"

subsection \<open>Strings\<close>

text \<open>
  Strings are lists of characters, one per code unit; the case conversion covers the
  ASCII letters, which the vendor's field names are made of.
\<close>

definition toLowerCase_char :: "char \<Rightarrow> char" where
  "toLowerCase_char c =
     (case map_of (zip ''ABCDEFGHIJKLMNOPQRSTUVWXYZ'' ''abcdefghijklmnopqrstuvwxyz'') c of
        None \<Rightarrow> c
      | Some l \<Rightarrow> l)"

text \<open>\<open>utils.js\<close>: \<open>lcFirst = str => str.charAt(0).toLowerCase() + str.slice(1)\<close>.\<close>

definition lcFirst :: "string \<Rightarrow> string" where
  "lcFirst str = map toLowerCase_char (take 1 str) @ drop 1 str"

definition startsWith :: "string \<Rightarrow> string \<Rightarrow> bool" where
  "startsWith s p = (take (length p) s = p)"

definition slice_from :: "string \<Rightarrow> nat \<Rightarrow> string" where
  "slice_from s n = drop n s"

definition includes_char :: "string \<Rightarrow> char \<Rightarrow> bool" where
  "includes_char s c = (c \<in> set s)"

text \<open>\<open>split s sep\<close> with a separator of one character.\<close>

fun split_on :: "char \<Rightarrow> string \<Rightarrow> string list" where
  "split_on sep [] = [[]]"
| "split_on sep (c # cs) =
     (if c = sep then [] # split_on sep cs
      else (case split_on sep cs of [] \<Rightarrow> [[c]] | p # ps \<Rightarrow> (c # p) # ps))"

text \<open>\<open>part ps i\<close> is \<open>ps[i]\<close> of an array of strings: \<open>None\<close> is \<open>undefined\<close>.\<close>

definition part :: "string list \<Rightarrow> nat \<Rightarrow> string option" where
  "part ps i = (if i < length ps then Some (ps ! i) else None)"

text \<open>
  The conversion of a string to a number, where \<open>None\<close> is \<open>NaN\<close>. The model reads the
  empty string (0) and decimal digits with an optional sign; the other numeric literals
  of JavaScript (surrounding blanks, fractions, exponents, hexadecimal, \<open>Infinity\<close>) are
  outside the model: the theorems below assume of a string that the conversion reads
  it as a number, and the concrete runs use digits.
\<close>

definition is_digits :: "string \<Rightarrow> bool" where
  "is_digits s = (s \<noteq> [] \<and> list_all (\<lambda>c. c \<in> set ''0123456789'') s)"

definition digit_val :: "char \<Rightarrow> nat" where
  "digit_val c =
     (case map_of (zip ''0123456789'' [0, 1, 2, 3, 4, 5, 6, 7, 8, 9]) c of
        None \<Rightarrow> 0
      | Some d \<Rightarrow> d)"

definition parse_nat :: "string \<Rightarrow> nat" where
  "parse_nat s = foldl (\<lambda>n c. 10 * n + digit_val c) 0 s"

definition str_to_number :: "string \<Rightarrow> int option" where
  "str_to_number s =
     (if s = [] then Some 0
      else if is_digits s then Some (int (parse_nat s))
      else if hd s = CHR ''-'' \<and> is_digits (tl s) then Some (- int (parse_nat (tl s)))
      else if hd s = CHR ''+'' \<and> is_digits (tl s) then Some (int (parse_nat (tl s)))
      else None)"

text \<open>An argument that may be \<open>undefined\<close> (\<open>None\<close>), which converts to \<open>NaN\<close>.\<close>

definition arg_to_number :: "string option \<Rightarrow> int option" where
  "arg_to_number a = (case a of None \<Rightarrow> None | Some s \<Rightarrow> str_to_number s)"

subsection \<open>Dates\<close>

text \<open>
  A \<open>Date\<close> is its time value in milliseconds, \<open>None\<close> for an invalid date (\<open>NaN\<close>).
  The model works in local time with a fixed offset from UTC, so that local time and
  the time value coincide; daylight-saving shifts are outside the model. The
  operations follow the abstract operations of the language standard (\<open>Day\<close>,
  \<open>MakeTime\<close>, \<open>MakeDay\<close>, \<open>MakeDate\<close>, \<open>TimeClip\<close>).
\<close>

type_synonym jsdate = "int option"

definition msPerDay :: int where
  "msPerDay = 86400000"

definition Day :: "int \<Rightarrow> int" where
  "Day t = t div msPerDay"

definition HourFromTime :: "int \<Rightarrow> int" where
  "HourFromTime t = (t div 3600000) mod 24"

definition MinFromTime :: "int \<Rightarrow> int" where
  "MinFromTime t = (t div 60000) mod 60"

definition SecFromTime :: "int \<Rightarrow> int" where
  "SecFromTime t = (t div 1000) mod 60"

definition msFromTime :: "int \<Rightarrow> int" where
  "msFromTime t = t mod 1000"

definition MakeTime :: "int \<Rightarrow> int \<Rightarrow> int \<Rightarrow> int \<Rightarrow> int" where
  "MakeTime h m s ms = h * 3600000 + m * 60000 + s * 1000 + ms"

definition MakeDate :: "int \<Rightarrow> int \<Rightarrow> int" where
  "MakeDate day time = day * msPerDay + time"

definition TimeClip :: "int \<Rightarrow> jsdate" where
  "TimeClip t = (if \<bar>t\<bar> > 8640000000000000 then None else Some t)"

text \<open>
  The proleptic Gregorian calendar: the day number (days since 1 January 1970) of a
  civil date with month 1..12, and the civil date of a day number.
\<close>

definition days_from_civil :: "int \<Rightarrow> int \<Rightarrow> int \<Rightarrow> int" where
  "days_from_civil y m d =
     (let y' = (if m \<le> 2 then y - 1 else y);
          era = y' div 400;
          yoe = y' mod 400;
          doy = (153 * (if m > 2 then m - 3 else m + 9) + 2) div 5 + d - 1;
          doe = yoe * 365 + yoe div 4 - yoe div 100 + doy
      in era * 146097 + doe - 719468)"

definition civil_from_days :: "int \<Rightarrow> int \<times> int \<times> int" where
  "civil_from_days z =
     (let z' = z + 719468;
          era = z' div 146097;
          doe = z' mod 146097;
          yoe = (doe - doe div 1460 + doe div 36524 - doe div 146096) div 365;
          y = yoe + era * 400;
          doy = doe - (365 * yoe + yoe div 4 - yoe div 100);
          mp = (5 * doy + 2) div 153;
          d = doy - (153 * mp + 2) div 5 + 1;
          m = (if mp < 10 then mp + 3 else mp - 9)
      in (if m \<le> 2 then y + 1 else y, m, d))"

definition YearFromTime :: "int \<Rightarrow> int" where
  "YearFromTime t = fst (civil_from_days (Day t))"

text \<open>Months count from 0 (January), as \<open>getMonth\<close> and the \<open>Date\<close> constructor do.\<close>

definition MonthFromTime :: "int \<Rightarrow> int" where
  "MonthFromTime t = fst (snd (civil_from_days (Day t))) - 1"

definition DateFromTime :: "int \<Rightarrow> int" where
  "DateFromTime t = snd (snd (civil_from_days (Day t)))"

definition MakeDay :: "int \<Rightarrow> int \<Rightarrow> int \<Rightarrow> int" where
  "MakeDay year month date =
     (let ym = year + month div 12;
          mn = month mod 12
      in days_from_civil ym (mn + 1) 1 + date - 1)"

text \<open>\<open>getYear\<close> is the year minus 1900.\<close>

definition getYear :: "int \<Rightarrow> int" where
  "getYear t = YearFromTime t - 1900"

definition getMonth :: "int \<Rightarrow> int" where
  "getMonth t = MonthFromTime t"

text \<open>
  \<open>new Date(year, month, date)\<close>: a year from 0 to 99 means 1900 + year; a \<open>NaN\<close>
  argument gives an invalid date.
\<close>

definition new_Date :: "int option \<Rightarrow> int option \<Rightarrow> int option \<Rightarrow> jsdate" where
  "new_Date year month date =
     (case (year, month, date) of
        (Some y, Some m, Some dt) \<Rightarrow>
          (let yr = (if 0 \<le> y \<and> y \<le> 99 then 1900 + y else y)
           in TimeClip (MakeDate (MakeDay yr m dt) (MakeTime 0 0 0 0)))
      | _ \<Rightarrow> None)"

definition setHours :: "jsdate \<Rightarrow> int option \<Rightarrow> jsdate" where
  "setHours d hour =
     (case (d, hour) of
        (Some t, Some h) \<Rightarrow>
          TimeClip (MakeDate (Day t) (MakeTime h (MinFromTime t) (SecFromTime t) (msFromTime t)))
      | _ \<Rightarrow> None)"

definition setMinutes :: "jsdate \<Rightarrow> int option \<Rightarrow> jsdate" where
  "setMinutes d minute =
     (case (d, minute) of
        (Some t, Some m) \<Rightarrow>
          TimeClip (MakeDate (Day t) (MakeTime (HourFromTime t) m (SecFromTime t) (msFromTime t)))
      | _ \<Rightarrow> None)"

definition setSeconds :: "jsdate \<Rightarrow> int option \<Rightarrow> jsdate" where
  "setSeconds d sec =
     (case (d, sec) of
        (Some t, Some s) \<Rightarrow>
          TimeClip (MakeDate (Day t) (MakeTime (HourFromTime t) (MinFromTime t) s (msFromTime t)))
      | _ \<Rightarrow> None)"

definition setMilliseconds :: "jsdate \<Rightarrow> int option \<Rightarrow> jsdate" where
  "setMilliseconds d ms =
     (case (d, ms) of
        (Some t, Some x) \<Rightarrow>
          TimeClip (MakeDate (Day t) (MakeTime (HourFromTime t) (MinFromTime t) (SecFromTime t) x))
      | _ \<Rightarrow> None)"

subsection \<open>HTTP exchanges and the client state\<close>

record request =
  req_method :: string
  req_url :: string
  req_headers :: "(string \<times> string) list"
  req_body :: "jsvalue option"

text \<open>
  A response: its status line, the \<open>set-cookie\<close> header (\<open>None\<close> when
  \<open>res.headers.get('set-cookie')\<close> is \<open>null\<close>), and the body as \<open>res.json()\<close> parses it
  (\<open>None\<close> when the body is not JSON and \<open>res.json()\<close> rejects). \<open>req_body\<close> holds the value
  the client passes to \<open>JSON.stringify\<close>.
\<close>

record http_response =
  status :: int
  statusText :: string
  set_cookie :: "string option"
  json_body :: "jsvalue option"

datatype fetch_result = NetworkFailure | Response http_response

text \<open>
  The vendor answers a request knowing all the requests sent so far, the last one
  being the request to answer.
\<close>

type_synonym vendor = "request list \<Rightarrow> fetch_result"

text \<open>
  The \<open>session\<close> and \<open>urls\<close> objects of \<open>create\<close>. \<open>session_id\<close> is \<open>session.id\<close>;
  \<open>session_data\<close> is the property \<open>session.data\<close> that \<open>getClientInfo\<close> of the validating
  client adds (\<open>undefined\<close> until then); \<open>sent\<close> lists the requests sent so far.
\<close>

record session_t =
  session_id :: jsvalue
  account :: jsvalue
  userToken :: jsvalue
  clientInfo :: jsvalue
  session_data :: jsvalue

record urls_t =
  paUrl :: jsvalue
  productSearchUrl :: jsvalue
  productTypesUrl :: jsvalue
  reportingUrl :: jsvalue
  tradingUrl :: jsvalue
  vwdQuotecastServiceUrl :: jsvalue

record client =
  session :: session_t
  urls :: urls_t
  sent :: "request list"

text \<open>The options of \<open>create\<close>, which default to environment variables.\<close>

record options =
  username :: jsvalue
  password :: jsvalue
  oneTimePassword :: jsvalue
  sessionId :: jsvalue
  account_opt :: jsvalue

text \<open>
  What the client imports and this repository does not define: \<open>parse\<close> of the package
  \<open>cookie\<close>, \<open>querystring.stringify\<close>, \<open>encodeURI\<close>, and the two constants of
  \<open>./constants\<close> the client reads. They are parameters of the embedding.
\<close>

record deps =
  parseCookies :: "string \<Rightarrow> (string \<times> string) list"
  querystring_stringify :: "(string \<times> jsvalue) list \<Rightarrow> string"
  encodeURI :: "string \<Rightarrow> string"
  TimeTypes_day :: jsvalue
  ProductTypes_all :: jsvalue

definition create :: "options \<Rightarrow> client" where
  "create opts =
     \<lparr> session = \<lparr> session_id = sessionId opts, account = account_opt opts,
                    userToken = JNull, clientInfo = JNull, session_data = JUndefined \<rparr>,
       urls = \<lparr> paUrl = JNull, productSearchUrl = JNull, productTypesUrl = JNull,
                 reportingUrl = JNull, tradingUrl = JNull, vwdQuotecastServiceUrl = JNull \<rparr>,
       sent = [] \<rparr>"

text \<open>
  A promise is a function of the client state that settles with a value (\<open>Inr\<close>) or a
  rejection (\<open>Inl\<close>) and the state it leaves; \<open>thenP p f\<close> is \<open>p.then(f)\<close>.
\<close>

type_synonym 'a promise = "client \<Rightarrow> (error + 'a) \<times> client"

definition settle :: "error + 'a \<Rightarrow> 'a promise" where
  "settle r c = (r, c)"

definition thenP :: "'a promise \<Rightarrow> ('a \<Rightarrow> 'b promise) \<Rightarrow> 'b promise" where
  "thenP p f c = (case p c of (Inl e, c') \<Rightarrow> (Inl e, c') | (Inr x, c') \<Rightarrow> f x c')"

definition fetch :: "vendor \<Rightarrow> request \<Rightarrow> http_response promise" where
  "fetch vendor req c =
     (let c' = c\<lparr>sent := sent c @ [req]\<rparr>
      in case vendor (sent c') of
           NetworkFailure \<Rightarrow> (Inl FetchError, c')
         | Response res \<Rightarrow> (Inr res, c'))"

definition res_json :: "http_response \<Rightarrow> error + jsvalue" where
  "res_json res = (case json_body res of None \<Rightarrow> Inl SyntaxError | Some j \<Rightarrow> Inr j)"

text \<open>\<open>res.ok\<close>: the status is in the range 200 to 299.\<close>

definition res_ok :: "http_response \<Rightarrow> bool" where
  "res_ok res = (200 \<le> status res \<and> status res < 300)"

definition GET :: "string \<Rightarrow> request" where
  "GET u = \<lparr> req_method = ''GET'', req_url = u, req_headers = [], req_body = None \<rparr>"

definition BASE_TRADER_URL :: string where
  "BASE_TRADER_URL = ''https://trader.degiro.nl''"

definition VWD_URL :: string where
  "VWD_URL = ''https://degiro.quotecast.vwdservices.com/CORS/''"

subsection \<open>The validating client\<close>

definition checkSuccess :: "http_response \<Rightarrow> jsvalue \<Rightarrow> error + jsvalue" where
  "checkSuccess res json =
     (if \<not> res_ok res then
        bindE (has_prop json ''errors'') (\<lambda>has.
          if has then
            bindE (get_prop json ''errors'') (\<lambda>errors.
            bindE (get_index errors 0) (\<lambda>e0.
            bindE (get_prop e0 ''text'') (\<lambda>t. Inl (Error_text t))))
          else Inl (Error_status (status res) (statusText res)))
      else Inr json)"

text \<open>
  The step every operation ends its request with:
  \<open>res => res.json().then(json => checkSuccess(res, json, operation))\<close>.
\<close>

definition checked_json :: "http_response \<Rightarrow> jsvalue promise" where
  "checked_json res = settle (bindE (res_json res) (\<lambda>json. checkSuccess res json))"

definition getData_url :: "deps \<Rightarrow> (string \<times> jsvalue) list \<Rightarrow> client \<Rightarrow> string" where
  "getData_url d opts c =
     toString (tradingUrl (urls c)) @ ''v5/update/'' @ toString (account (session c))
     @ '';jsessionid='' @ toString (session_id (session c)) @ ''?''
     @ querystring_stringify d opts"

definition getData :: "deps \<Rightarrow> vendor \<Rightarrow> (string \<times> jsvalue) list \<Rightarrow> jsvalue promise" where
  "getData d vendor opts c = thenP (fetch vendor (GET (getData_url d opts c))) checked_json c"

text \<open>\<open>v.map(f)\<close>, a \<open>TypeError\<close> when \<open>v\<close> is not an array.\<close>

definition array_map :: "(jsvalue \<Rightarrow> error + 'b) \<Rightarrow> jsvalue \<Rightarrow> error + 'b list" where
  "array_map f v = (case v of JArr xs \<Rightarrow> mapE f xs | _ \<Rightarrow> Inl TypeError)"

text \<open>\<open>fromPairs\<close> and \<open>omit\<close> of lodash.\<close>

definition fromPairs :: "(jsvalue \<times> jsvalue) list \<Rightarrow> (string \<times> jsvalue) list" where
  "fromPairs pairs = foldl (\<lambda>obj (k, v). obj_set obj (toString k) v) [] pairs"

definition omit :: "(string \<times> jsvalue) list \<Rightarrow> string list \<Rightarrow> (string \<times> jsvalue) list" where
  "omit obj ks = filter (\<lambda>(k, v). k \<notin> set ks) obj"

text \<open>
  The function \<open>getCashFunds\<close> maps over \<open>data.cashFunds.value\<close>:
  \<open>({value}) => omit(fromPairs(value.map(({name, value}) => [name, value])), [...])\<close>.
\<close>

definition name_value_pair :: "jsvalue \<Rightarrow> error + (jsvalue \<times> jsvalue)" where
  "name_value_pair p =
     bindE (get_prop p ''name'') (\<lambda>name.
     bindE (get_prop p ''value'') (\<lambda>v. Inr (name, v)))"

definition cashFunds_entry :: "jsvalue \<Rightarrow> error + jsvalue" where
  "cashFunds_entry e =
     bindE (get_prop e ''value'') (\<lambda>v.
     bindE (array_map name_value_pair v) (\<lambda>pairs.
       Inr (JObj (omit (fromPairs pairs) [''handling'', ''currencyCode'']))))"

definition cashFunds_of :: "jsvalue \<Rightarrow> error + jsvalue" where
  "cashFunds_of data =
     bindE (get_prop data ''cashFunds'') (\<lambda>cf.
       if truthy cf then
         bindE (get_prop cf ''value'') (\<lambda>v.
           if isArray v then
             bindE (array_map cashFunds_entry v) (\<lambda>es. Inr (JObj [(''cashFunds'', JArr es)]))
           else Inl (Bad_result data))
       else Inl (Bad_result data))"

definition getCashFunds :: "deps \<Rightarrow> vendor \<Rightarrow> jsvalue promise" where
  "getCashFunds d vendor =
     thenP (getData d vendor [(''cashFunds'', JNum 0)]) (\<lambda>data. settle (cashFunds_of data))"

definition portfolio_of :: "jsvalue \<Rightarrow> error + jsvalue" where
  "portfolio_of data =
     bindE (get_prop data ''portfolio'') (\<lambda>pf.
       if truthy pf then
         bindE (get_prop pf ''value'') (\<lambda>v.
           if isArray v then Inr (JObj [(''portfolio'', v)]) else Inl (Bad_result data))
       else Inl (Bad_result data))"

definition getPortfolio :: "deps \<Rightarrow> vendor \<Rightarrow> jsvalue promise" where
  "getPortfolio d vendor =
     thenP (getData d vendor [(''portfolio'', JNum 0)]) (\<lambda>data. settle (portfolio_of data))"

text \<open>
  The date of an order row, as \<open>processOrders\<close> builds it from \<open>orderRow.value\<close>; \<open>now\<close>
  is the time value of \<open>new Date()\<close>. A value without the methods \<open>includes\<close> and \<open>split\<close>
  gives a \<open>TypeError\<close>; an array has \<open>includes\<close> but no \<open>split\<close>.
\<close>

definition parseOrderDate :: "int \<Rightarrow> jsvalue \<Rightarrow> error + jsdate" where
  "parseOrderDate now v =
     (case v of
        JStr s \<Rightarrow>
          if includes_char s CHR '':'' then
            (let d0 = Some now;
                 d1 = setHours d0 (arg_to_number (part (split_on CHR '':'' s) 0));
                 d2 = setMinutes d1 (arg_to_number (part (split_on CHR '':'' s) 1));
                 d3 = setSeconds d2 (Some 0);
                 d4 = setMilliseconds d3 (Some 0)
             in Inr d4)
          else if includes_char s CHR ''/'' then
            (let currentDate = now;
                 month = part (split_on CHR ''/'' s) 1
             in Inr (new_Date
                  (Some (if (case arg_to_number month of None \<Rightarrow> False
                                | Some m \<Rightarrow> getMonth currentDate < m)
                         then getYear currentDate - 1
                         else getYear currentDate))
                  (arg_to_number month)
                  (arg_to_number (part (split_on CHR ''/'' s) 0))))
          else Inl (Unexpected_date_format v)
      | JArr xs \<Rightarrow>
          if JStr '':'' \<in> set xs \<or> JStr ''/'' \<in> set xs then Inl TypeError
          else Inl (Unexpected_date_format v)
      | _ \<Rightarrow> Inl TypeError)"

text \<open>The fields of a processed order: a vendor value as it came, or a date.\<close>

datatype order_field = Plain jsvalue | Date jsdate

type_synonym order = "(string \<times> order_field) list"

fun foldE :: "('s \<Rightarrow> 'a \<Rightarrow> error + 's) \<Rightarrow> 's \<Rightarrow> 'a list \<Rightarrow> error + 's" where
  "foldE f s [] = Inr s"
| "foldE f s (x # xs) = bindE (f s x) (\<lambda>s'. foldE f s' xs)"

text \<open>\<open>v.forEach(f)\<close> with a state, a \<open>TypeError\<close> when \<open>v\<close> is not an array.\<close>

definition array_forEach :: "('s \<Rightarrow> jsvalue \<Rightarrow> error + 's) \<Rightarrow> 's \<Rightarrow> jsvalue \<Rightarrow> error + 's" where
  "array_forEach f s v = (case v of JArr xs \<Rightarrow> foldE f s xs | _ \<Rightarrow> Inl TypeError)"

definition processOrderRow :: "int \<Rightarrow> order \<Rightarrow> jsvalue \<Rightarrow> error + order" where
  "processOrderRow now obj orderRow =
     bindE (get_prop orderRow ''name'') (\<lambda>name.
       if loose_eq_str name ''date'' then
         bindE (get_prop orderRow ''value'') (\<lambda>v.
         bindE (parseOrderDate now v) (\<lambda>dt. Inr (obj_set obj (toString name) (Date dt))))
       else
         bindE (get_prop orderRow ''value'') (\<lambda>v. Inr (obj_set obj (toString name) (Plain v))))"

definition processOrder :: "int \<Rightarrow> jsvalue \<Rightarrow> error + order" where
  "processOrder now ord =
     bindE (get_prop ord ''id'') (\<lambda>i.
     bindE (get_prop ord ''value'') (\<lambda>v.
       array_forEach (processOrderRow now) [(''id'', Plain i)] v))"

definition processOrders :: "int \<Rightarrow> jsvalue \<Rightarrow> error + order list" where
  "processOrders now orders = array_map (processOrder now) orders"

record orders_result =
  openOrders :: "order list"
  cancelledOrders :: "order list"
  completedOrders :: "order list"

text \<open>\<open>data[k] && Array.isArray(data[k].value)\<close>.\<close>

definition has_value_array :: "jsvalue \<Rightarrow> string \<Rightarrow> error + bool" where
  "has_value_array dat k =
     bindE (get_prop dat k) (\<lambda>x.
       if truthy x then bindE (get_prop x ''value'') (\<lambda>v. Inr (isArray v)) else Inr False)"

definition value_of :: "jsvalue \<Rightarrow> string \<Rightarrow> error + jsvalue" where
  "value_of dat k = bindE (get_prop dat k) (\<lambda>x. get_prop x ''value'')"

definition orders_of :: "int \<Rightarrow> jsvalue \<Rightarrow> error + orders_result" where
  "orders_of now dat =
     bindE (has_value_array dat ''orders'') (\<lambda>b1.
     bindE (if b1 then has_value_array dat ''historicalOrders'' else Inr False) (\<lambda>b2.
     bindE (if b2 then has_value_array dat ''transactions'' else Inr False) (\<lambda>b3.
       if b3 then
         bindE (bindE (value_of dat ''orders'') (processOrders now)) (\<lambda>os.
         bindE (bindE (value_of dat ''historicalOrders'') (processOrders now)) (\<lambda>hs.
         bindE (bindE (value_of dat ''transactions'') (processOrders now)) (\<lambda>ts.
           Inr \<lparr> openOrders = os, cancelledOrders = hs, completedOrders = ts \<rparr>)))
       else Inl (Bad_result dat))))"

definition getOrders :: "deps \<Rightarrow> vendor \<Rightarrow> int \<Rightarrow> orders_result promise" where
  "getOrders d vendor now =
     thenP (getData d vendor
              [(''orders'', JNum 0), (''historicalOrders'', JNum 0), (''transactions'', JNum 0)])
       (\<lambda>dat. settle (orders_of now dat))"

definition getTasks :: "vendor \<Rightarrow> jsvalue promise" where
  "getTasks vendor c =
     (let url = toString (paUrl (urls c)) @ ''clienttasks?intAccount=''
                @ toString (account (session c)) @ ''&sessionId=''
                @ toString (session_id (session c))
      in thenP (fetch vendor (GET url)) checked_json c)"

definition getOrdersHistory :: "deps \<Rightarrow> vendor \<Rightarrow> jsvalue \<Rightarrow> jsvalue \<Rightarrow> jsvalue promise" where
  "getOrdersHistory d vendor fromDate toDate c =
     (let url = toString (reportingUrl (urls c)) @ ''v4/order-history?intAccount=''
                @ toString (account (session c)) @ ''&fromDate='' @ toString fromDate
                @ ''&toDate='' @ toString toDate @ ''&sessionId=''
                @ toString (session_id (session c))
      in thenP (fetch vendor (GET (encodeURI d url))) checked_json c)"

definition getTransactions ::
  "deps \<Rightarrow> vendor \<Rightarrow> jsvalue \<Rightarrow> jsvalue \<Rightarrow> jsvalue \<Rightarrow> jsvalue promise" where
  "getTransactions d vendor fromDate toDate groupByOrder c =
     (let url = toString (reportingUrl (urls c)) @ ''v4/transactions?intAccount=''
                @ toString (account (session c)) @ ''&fromDate='' @ toString fromDate
                @ ''&toDate='' @ toString toDate @ ''&groupTransactionsByOrder=''
                @ toString groupByOrder @ ''&sessionId=''
                @ toString (session_id (session c))
      in thenP (fetch vendor (GET (encodeURI d url))) checked_json c)"

text \<open>
  \<open>getClientInfo\<close> stores the client data in the session (under \<open>session.data\<close>); the
  first read of \<open>data\<close> throws, before any assignment, when \<open>json.data\<close> is missing.
\<close>

definition getClientInfo :: "vendor \<Rightarrow> jsvalue promise" where
  "getClientInfo vendor c =
     (let url = toString (paUrl (urls c)) @ ''client?sessionId=''
                @ toString (session_id (session c))
      in thenP (thenP (fetch vendor (GET url)) checked_json)
           (\<lambda>json c1.
              case bindE (get_prop json ''data'') (\<lambda>dat.
                   bindE (get_prop dat ''intAccount'') (\<lambda>acc.
                   bindE (get_prop dat ''id'') (\<lambda>tok. Inr (dat, acc, tok)))) of
                Inl e \<Rightarrow> (Inl e, c1)
              | Inr (dat, acc, tok) \<Rightarrow>
                  (Inr dat, c1\<lparr>session := (session c1)\<lparr>account := acc, userToken := tok,
                                                      session_data := dat\<rparr>\<rparr>)) c)"

definition updateConfig :: "vendor \<Rightarrow> unit promise" where
  "updateConfig vendor c =
     (let url = BASE_TRADER_URL @ ''/login/secure/config'';
          req = \<lparr> req_method = ''GET'', req_url = url,
                  req_headers = [(''Cookie'', ''JSESSIONID='' @ toString (session_id (session c)) @ '';'')],
                  req_body = None \<rparr>
      in thenP (thenP (fetch vendor req) checked_json)
           (\<lambda>json c1.
              case get_prop json ''data'' of
                Inl e \<Rightarrow> (Inl e, c1)
              | Inr dat \<Rightarrow>
                  (case bindE (get_prop dat ''paUrl'') (\<lambda>u1.
                        bindE (get_prop dat ''productSearchUrl'') (\<lambda>u2.
                        bindE (get_prop dat ''productTypesUrl'') (\<lambda>u3.
                        bindE (get_prop dat ''reportingUrl'') (\<lambda>u4.
                        bindE (get_prop dat ''tradingUrl'') (\<lambda>u5.
                        bindE (get_prop dat ''vwdQuotecastServiceUrl'') (\<lambda>u6.
                          Inr \<lparr> paUrl = u1, productSearchUrl = u2, productTypesUrl = u3,
                                reportingUrl = u4, tradingUrl = u5,
                                vwdQuotecastServiceUrl = u6 \<rparr>)))))) of
                     Inl e \<Rightarrow> (Inl e, c1)
                   | Inr us \<Rightarrow> (Inr (), c1\<lparr>urls := us\<rparr>))) c)"

text \<open>
  \<open>sendLoginRequest\<close> stores the cookie \<open>JSESSIONID\<close> in \<open>session.id\<close> before it checks the
  response, then chains \<open>updateConfig\<close> and \<open>getClientInfo\<close> and resolves to the session.
  \<open>JSESSIONID_of\<close> is \<open>parseCookies(res.headers.get('set-cookie') || '').JSESSIONID\<close>.
\<close>

definition JSESSIONID_of :: "deps \<Rightarrow> http_response \<Rightarrow> jsvalue" where
  "JSESSIONID_of d res =
     (case obj_get (parseCookies d (case set_cookie res of None \<Rightarrow> [] | Some h \<Rightarrow> h))
             ''JSESSIONID'' of
        None \<Rightarrow> JUndefined
      | Some v \<Rightarrow> JStr v)"

definition read_login_response :: "deps \<Rightarrow> http_response \<Rightarrow> unit promise" where
  "read_login_response d res =
     thenP (settle (res_json res))
       (\<lambda>json c.
          let c1 = c\<lparr>session := (session c)\<lparr>session_id := JSESSIONID_of d res\<rparr>\<rparr>
          in case checkSuccess res json of
               Inl e \<Rightarrow> (Inl e, c1)
             | Inr j \<Rightarrow>
                 if \<not> truthy (session_id (session c1)) then (Inl Login_nok, c1)
                 else (Inr (), c1))"

definition login_request :: "string \<Rightarrow> jsvalue \<Rightarrow> request" where
  "login_request url params =
     \<lparr> req_method = ''POST'', req_url = url,
       req_headers = [(''Content-Type'', ''application/json'')], req_body = Some params \<rparr>"

definition sendLoginRequest :: "deps \<Rightarrow> vendor \<Rightarrow> string \<Rightarrow> jsvalue \<Rightarrow> session_t promise" where
  "sendLoginRequest d vendor url params =
     thenP (thenP (thenP (thenP
       (fetch vendor (login_request url params))
       (read_login_response d))
       (\<lambda>u. updateConfig vendor))
       (\<lambda>u. getClientInfo vendor))
       (\<lambda>dat c. (Inr (session c), c))"

text \<open>
  \<open>login\<close> builds the URL and the parameters, both with the one-time password when
  there is one, and sends them.
\<close>

definition login_url :: "options \<Rightarrow> string" where
  "login_url opts =
     (if truthy (oneTimePassword opts) then BASE_TRADER_URL @ ''/login/secure/login'' @ ''/totp''
      else BASE_TRADER_URL @ ''/login/secure/login'')"

definition loginParams :: "options \<Rightarrow> jsvalue" where
  "loginParams opts =
     JObj ([(''username'', username opts), (''password'', password opts),
            (''isRedirectToMobile'', JBool False), (''loginButtonUniversal'', JStr []),
            (''queryParams'', JObj [(''reason'', JStr ''session_expired'')])]
           @ (if truthy (oneTimePassword opts)
              then [(''oneTimePassword'', oneTimePassword opts)] else []))"

definition login :: "deps \<Rightarrow> vendor \<Rightarrow> options \<Rightarrow> session_t promise" where
  "login d vendor opts = sendLoginRequest d vendor (login_url opts) (loginParams opts)"

text \<open>A destructured parameter with a default: the default stands in for \<open>undefined\<close>.\<close>

definition default_to :: "jsvalue \<Rightarrow> jsvalue \<Rightarrow> jsvalue" where
  "default_to v dflt = (if v = JUndefined then dflt else v)"

definition isNil :: "jsvalue \<Rightarrow> bool" where
  "isNil v = (v = JUndefined \<or> v = JNull)"

definition omitBy_isNil :: "(string \<times> jsvalue) list \<Rightarrow> (string \<times> jsvalue) list" where
  "omitBy_isNil obj = filter (\<lambda>(k, v). \<not> isNil v) obj"

definition searchProduct :: "deps \<Rightarrow> vendor \<Rightarrow> jsvalue \<Rightarrow> jsvalue promise" where
  "searchProduct d vendor arg c =
     (case bindE (get_prop arg ''text'') (\<lambda>searchText.
           bindE (get_prop arg ''productType'') (\<lambda>productType.
           bindE (get_prop arg ''sortColumn'') (\<lambda>sortColumn.
           bindE (get_prop arg ''sortType'') (\<lambda>sortType.
           bindE (get_prop arg ''limit'') (\<lambda>limit.
           bindE (get_prop arg ''offset'') (\<lambda>offset.
             Inr [(''searchText'', searchText),
                  (''productTypeId'', default_to productType (ProductTypes_all d)),
                  (''sortColumns'', sortColumn),
                  (''sortTypes'', sortType),
                  (''limit'', default_to limit (JNum 7)),
                  (''offset'', default_to offset (JNum 0))])))))) of
        Inl e \<Rightarrow> (Inl e, c)
      | Inr opts \<Rightarrow>
          (let params = querystring_stringify d (omitBy_isNil opts);
               url = toString (productSearchUrl (urls c)) @ ''v5/products/lookup?intAccount=''
                     @ toString (account (session c)) @ ''&sessionId=''
                     @ toString (session_id (session c)) @ ''&'' @ params
           in thenP (fetch vendor (GET url)) checked_json c))"

definition json_headers :: "(string \<times> string) list" where
  "json_headers = [(''Content-Type'', ''application/json;charset=UTF-8'')]"

definition deleteOrder_request :: "client \<Rightarrow> jsvalue \<Rightarrow> request" where
  "deleteOrder_request c orderId =
     \<lparr> req_method = ''DELETE'',
       req_url = toString (tradingUrl (urls c)) @ ''v5/order/'' @ toString orderId
                 @ '';jsessionid='' @ toString (session_id (session c)) @ ''?intAccount=''
                 @ toString (account (session c)) @ ''&sessionId=''
                 @ toString (session_id (session c)),
       req_headers = json_headers, req_body = None \<rparr>"

definition deleteOrder :: "vendor \<Rightarrow> jsvalue \<Rightarrow> jsvalue promise" where
  "deleteOrder vendor orderId c =
     thenP (fetch vendor (deleteOrder_request c orderId)) checked_json c"

definition checkOrder_url :: "client \<Rightarrow> string" where
  "checkOrder_url c =
     toString (tradingUrl (urls c)) @ ''v5/checkOrder;jsessionid=''
     @ toString (session_id (session c)) @ ''?intAccount='' @ toString (account (session c))
     @ ''&sessionId='' @ toString (session_id (session c))"

text \<open>
  \<open>checkOrder\<close> destructures its argument first, a \<open>TypeError\<close> on \<open>undefined\<close> and
  \<open>null\<close>, and resolves to \<open>{order, confirmationId: json.data.confirmationId}\<close>.
\<close>

definition checkOrder :: "vendor \<Rightarrow> jsvalue \<Rightarrow> jsvalue promise" where
  "checkOrder vendor ord c =
     (case get_prop ord ''buySell'' of
        Inl e \<Rightarrow> (Inl e, c)
      | Inr b \<Rightarrow>
          thenP (thenP (fetch vendor \<lparr> req_method = ''POST'', req_url = checkOrder_url c,
                                      req_headers = json_headers, req_body = Some ord \<rparr>)
                   checked_json)
            (\<lambda>json. settle (bindE (get_prop json ''data'') (\<lambda>dat.
                             bindE (get_prop dat ''confirmationId'') (\<lambda>cid.
                               Inr (JObj [(''order'', ord), (''confirmationId'', cid)]))))) c)"

definition confirmOrder_url :: "client \<Rightarrow> jsvalue \<Rightarrow> string" where
  "confirmOrder_url c confirmationId =
     toString (tradingUrl (urls c)) @ ''v5/order/'' @ toString confirmationId
     @ '';jsessionid='' @ toString (session_id (session c)) @ ''?intAccount=''
     @ toString (account (session c)) @ ''&sessionId='' @ toString (session_id (session c))"

definition confirmOrder :: "vendor \<Rightarrow> jsvalue \<Rightarrow> jsvalue promise" where
  "confirmOrder vendor arg c =
     (case bindE (get_prop arg ''order'') (\<lambda>ord.
           bindE (get_prop arg ''confirmationId'') (\<lambda>cid. Inr (ord, cid))) of
        Inl e \<Rightarrow> (Inl e, c)
      | Inr (ord, confirmationId) \<Rightarrow>
          thenP (thenP (fetch vendor \<lparr> req_method = ''POST'',
                                      req_url = confirmOrder_url c confirmationId,
                                      req_headers = json_headers,
                                      req_body = Some ord \<rparr>)
                   checked_json)
            (\<lambda>json. settle (bindE (get_prop json ''data'') (\<lambda>dat.
                             bindE (get_prop dat ''orderId'') (\<lambda>oid.
                               Inr (JObj [(''orderId'', oid)]))))) c)"

text \<open>
  \<open>setOrder\<close> builds the order from the seven fields of its argument (\<open>timeType\<close>
  defaulting to \<open>TimeTypes.day\<close>) and is \<open>checkOrder(...).then(confirmOrder)\<close>.
\<close>

definition order_of_arg :: "deps \<Rightarrow> jsvalue \<Rightarrow> error + jsvalue" where
  "order_of_arg d arg =
     bindE (get_prop arg ''buySell'') (\<lambda>buySell.
     bindE (get_prop arg ''orderType'') (\<lambda>orderType.
     bindE (get_prop arg ''productId'') (\<lambda>productId.
     bindE (get_prop arg ''size'') (\<lambda>sz.
     bindE (get_prop arg ''timeType'') (\<lambda>timeType.
     bindE (get_prop arg ''price'') (\<lambda>price.
     bindE (get_prop arg ''stopPrice'') (\<lambda>stopPrice.
       Inr (JObj [(''buySell'', buySell), (''orderType'', orderType),
                  (''productId'', productId), (''size'', sz),
                  (''timeType'', default_to timeType (TimeTypes_day d)),
                  (''price'', price), (''stopPrice'', stopPrice)]))))))))"

definition setOrder :: "deps \<Rightarrow> vendor \<Rightarrow> jsvalue \<Rightarrow> jsvalue promise" where
  "setOrder d vendor arg c =
     (case order_of_arg d arg of
        Inl e \<Rightarrow> (Inl e, c)
      | Inr ord \<Rightarrow> thenP (checkOrder vendor ord) (confirmOrder vendor) c)"

text \<open>\<open>id.toString()\<close>, a \<open>TypeError\<close> on \<open>undefined\<close> and \<open>null\<close>.\<close>

definition call_toString :: "jsvalue \<Rightarrow> error + jsvalue" where
  "call_toString v =
     (if v = JUndefined \<or> v = JNull then Inl TypeError else Inr (JStr (toString v)))"

definition getProductsByIds :: "vendor \<Rightarrow> jsvalue \<Rightarrow> jsvalue promise" where
  "getProductsByIds vendor ids c =
     (let ids' = (if isArray ids then ids else JArr [ids]);
          url = toString (productSearchUrl (urls c)) @ ''v5/products/info?intAccount=''
                @ toString (account (session c)) @ ''&sessionId=''
                @ toString (session_id (session c))
      in case array_map call_toString ids' of
           Inl e \<Rightarrow> (Inl e, c)
         | Inr strs \<Rightarrow>
             thenP (fetch vendor \<lparr> req_method = ''POST'', req_url = url,
                                   req_headers = [(''Content-Type'', ''application/json'')],
                                   req_body = Some (JArr strs) \<rparr>)
               checked_json c)"

subsection \<open>The quote poller\<close>

definition vwd_headers :: "(string \<times> string) list" where
  "vwd_headers = [(''Origin'', ''https://trader.degiro.nl'')]"

definition requestVwdSession :: "vendor \<Rightarrow> jsvalue promise" where
  "requestVwdSession vendor c =
     (let url = VWD_URL @ ''request_session?version=1.0.20170315&userToken=''
                @ toString (userToken (session c))
      in thenP (fetch vendor \<lparr> req_method = ''POST'', req_url = url,
                               req_headers = vwd_headers,
                               req_body = Some (JObj [(''referrer'', JStr ''https://trader.degiro.nl'')]) \<rparr>)
           checked_json c)"

definition controlData :: "string \<Rightarrow> string" where
  "controlData issueId =
     ''req('' @ issueId @ ''.BidPrice);req('' @ issueId @ ''.AskPrice);req('' @ issueId
     @ ''.LastPrice);req('' @ issueId @ ''.LastTime);''"

text \<open>
  One round of \<open>getAskBidPrice\<close> up to the call of \<open>checkData\<close>: request a session,
  post the subscription to it, poll it, and check the poll's response.
\<close>

definition subscribe_and_poll :: "vendor \<Rightarrow> string \<Rightarrow> jsvalue promise" where
  "subscribe_and_poll vendor issueId =
     thenP (requestVwdSession vendor)
       (\<lambda>vwdSession.
          thenP (settle (get_prop vwdSession ''sessionId''))
            (\<lambda>sid.
               thenP (thenP
                 (fetch vendor \<lparr> req_method = ''POST'', req_url = VWD_URL @ toString sid,
                                 req_headers = vwd_headers,
                                 req_body = Some (JObj [(''controlData'', JStr (controlData issueId))]) \<rparr>)
                 (\<lambda>r. fetch vendor (GET (VWD_URL @ toString sid))))
                 checked_json))"

text \<open>
  The body of \<open>res.forEach\<close> in \<open>checkData\<close>. \<open>prices\<close> is the result object; \<open>keys\<close> is
  the array the stream keys index, held as the list of its entries by property key
  (its \<open>length\<close> and inherited properties are not modelled: stream keys are numbers).
\<close>

type_synonym prices = "(string \<times> jsvalue) list"

definition processRow ::
  "string \<Rightarrow> prices \<times> (string \<times> string) list \<Rightarrow> jsvalue
     \<Rightarrow> error + prices \<times> (string \<times> string) list" where
  "processRow issueId st row =
     (case st of (prices, keys) \<Rightarrow>
        bindE (get_prop row ''m'') (\<lambda>m.
          if loose_eq_str m ''a_req'' then
            bindE (get_prop row ''v'') (\<lambda>v.
            bindE (get_index v 0) (\<lambda>v0.
              case v0 of
                JStr s \<Rightarrow>
                  if startsWith s issueId then
                    (let key = lcFirst (slice_from s (length issueId + 1))
                     in bindE (get_index v 1) (\<lambda>v1.
                          Inr (obj_set prices key JNull, obj_set keys (toString v1) key)))
                  else Inr (prices, keys)
              | _ \<Rightarrow> Inl TypeError))
          else if loose_eq_str m ''un'' \<or> loose_eq_str m ''us'' then
            bindE (get_prop row ''v'') (\<lambda>v.
            bindE (get_index v 0) (\<lambda>v0.
            bindE (get_index v 1) (\<lambda>v1.
              Inr (obj_set prices
                     (case obj_get keys (toString v0) of
                        None \<Rightarrow> ''undefined''
                      | Some k \<Rightarrow> k)
                     v1,
                   keys))))
          else Inr (prices, keys)))"

text \<open>\<open>res.length == 1 && res[0].m == 'h'\<close>.\<close>

definition heartbeat_only :: "jsvalue list \<Rightarrow> error + bool" where
  "heartbeat_only rows =
     (if length rows = 1 then bindE (get_prop (hd rows) ''m'') (\<lambda>m. Inr (loose_eq_str m ''h''))
      else Inr False)"

definition process_rows :: "string \<Rightarrow> jsvalue list \<Rightarrow> error + prices" where
  "process_rows issueId rows =
     bindE (foldE (processRow issueId) ([], []) rows) (\<lambda>st. Inr (fst st))"

text \<open>
  \<open>getAskBidPrice(issueId, timesChecked = 0)\<close>; the function \<open>checkData\<close> is the part
  after the poll: it counts the round, rejects a response that is no array, starts
  over on a heartbeat, and processes the rows otherwise.
\<close>

function getAskBidPrice :: "vendor \<Rightarrow> string \<Rightarrow> nat \<Rightarrow> prices promise" where
  "getAskBidPrice vendor issueId timesChecked c =
     (case subscribe_and_poll vendor issueId c of
        (Inl e, c') \<Rightarrow> (Inl e, c')
      | (Inr res, c') \<Rightarrow>
          (let timesChecked' = timesChecked + 1 in
           case res of
             JArr rows \<Rightarrow>
               (case heartbeat_only rows of
                  Inl e \<Rightarrow> (Inl e, c')
                | Inr True \<Rightarrow>
                    if timesChecked' \<le> 3 then getAskBidPrice vendor issueId timesChecked' c'
                    else (Inl (Tried_3_times res), c')
                | Inr False \<Rightarrow> (process_rows issueId rows, c'))
           | _ \<Rightarrow> (Inl (Bad_result res), c')))"
  by pat_completeness auto
termination
  by (relation "measure (\<lambda>(vendor, issueId, timesChecked, c). 3 - timesChecked)") auto

declare getAskBidPrice.simps [simp del]

subsection \<open>The client with looser validation\<close>

text \<open>
  The second implementation logs each response in a step of its own,
  \<open>.then(res => log('...', JSON.stringify(res)))\<close>, and the promise goes on with what
  \<open>log\<close> returns. \<open>log\<close> is \<open>(...s) => console.log(...s)\<close> or \<open>() => {}\<close>: both return
  \<open>undefined\<close>.
\<close>

definition log_result :: jsvalue where
  "log_result = JUndefined"

definition getData_loose :: "deps \<Rightarrow> vendor \<Rightarrow> (string \<times> jsvalue) list \<Rightarrow> jsvalue promise" where
  "getData_loose d vendor opts c =
     thenP (thenP (fetch vendor (GET (getData_url d opts c)))
              (\<lambda>res. settle (res_json res)))
       (\<lambda>res. settle (Inr log_result)) c"

definition getCashFunds_loose :: "deps \<Rightarrow> vendor \<Rightarrow> jsvalue promise" where
  "getCashFunds_loose d vendor =
     thenP (getData_loose d vendor [(''cashFunds'', JNum 0)])
       (\<lambda>dat. settle (cashFunds_of dat))"

definition getPortfolio_loose :: "deps \<Rightarrow> vendor \<Rightarrow> jsvalue promise" where
  "getPortfolio_loose d vendor =
     thenP (getData_loose d vendor [(''portfolio'', JNum 0)])
       (\<lambda>dat. settle (portfolio_of dat))"

definition getOrders_loose :: "deps \<Rightarrow> vendor \<Rightarrow> int \<Rightarrow> orders_result promise" where
  "getOrders_loose d vendor now =
     thenP (getData_loose d vendor
              [(''orders'', JNum 0), (''historicalOrders'', JNum 0), (''transactions'', JNum 0)])
       (\<lambda>dat. settle (orders_of now dat))"

text \<open>\<open>checkSuccess = res => { if (res.status !== 0) throw Error(res.message); return res; }\<close>\<close>

definition checkSuccess_loose :: "jsvalue \<Rightarrow> error + jsvalue" where
  "checkSuccess_loose res =
     bindE (get_prop res ''status'') (\<lambda>st.
       if st \<noteq> JNum 0 then bindE (get_prop res ''message'') (\<lambda>m. Inl (Error_message m))
       else Inr res)"

definition checkOrder_loose :: "vendor \<Rightarrow> jsvalue \<Rightarrow> jsvalue promise" where
  "checkOrder_loose vendor ord c =
     (case get_prop ord ''buySell'' of
        Inl e \<Rightarrow> (Inl e, c)
      | Inr b \<Rightarrow>
          thenP (thenP (thenP (thenP
            (fetch vendor \<lparr> req_method = ''POST'', req_url = checkOrder_url c,
                            req_headers = json_headers, req_body = Some ord \<rparr>)
            (\<lambda>res. settle (res_json res)))
            (\<lambda>res. settle (Inr log_result)))
            (\<lambda>res. settle (checkSuccess_loose res)))
            (\<lambda>json. settle (bindE (get_prop json ''confirmationId'') (\<lambda>cid.
                               Inr (JObj [(''order'', ord), (''confirmationId'', cid)])))) c)"

text \<open>
  \<open>deleteOrder\<close> of this variant builds the options of \<open>fetch\<close> with
  \<open>body: JSON.stringify(params)\<close>, and no variable \<open>params\<close> is in scope: the call throws
  a \<open>ReferenceError\<close> before any request is sent. The rest of the function (resolve
  \<open>true\<close> when \<open>res.status == 0 && res.statusText == 'success'\<close>, reject with
  \<open>'delete order failed'\<close> otherwise) is never reached.
\<close>

definition deleteOrder_loose :: "vendor \<Rightarrow> jsvalue \<Rightarrow> bool promise" where
  "deleteOrder_loose vendor orderId c = (Inl ReferenceError, c)"

text \<open>
  \<open>requestVwdSession\<close> of this variant resolves to what \<open>log\<close> returns, and
  \<open>getAskBidPrice\<close> reads \<open>vwdSession.sessionId\<close> from it.
\<close>

definition requestVwdSession_loose :: "vendor \<Rightarrow> jsvalue promise" where
  "requestVwdSession_loose vendor c =
     (let url = VWD_URL @ ''request_session?version=1.0.20170315&userToken=''
                @ toString (userToken (session c))
      in thenP (thenP
           (fetch vendor \<lparr> req_method = ''POST'', req_url = url,
                           req_headers = vwd_headers,
                           req_body = Some (JObj [(''referrer'', JStr ''https://trader.degiro.nl'')]) \<rparr>)
           (\<lambda>res. settle (res_json res)))
           (\<lambda>res. settle (Inr log_result)) c)"

text \<open>
  The bootstrap of this variant parses each response and checks nothing but the
  session cookie: \<open>updateConfig\<close> and \<open>getClientInfo\<close> read \<open>res.data\<close> from the parsed
  body, and \<open>sendLoginRequest\<close> never reads the status or the body of the login
  response. \<open>getClientInfo\<close> stores the client data under \<open>session.clientInfo\<close>.
\<close>

definition plain_json :: "http_response \<Rightarrow> jsvalue promise" where
  "plain_json res = settle (res_json res)"

definition updateConfig_loose :: "vendor \<Rightarrow> unit promise" where
  "updateConfig_loose vendor c =
     (let url = BASE_TRADER_URL @ ''/login/secure/config'';
          req = \<lparr> req_method = ''GET'', req_url = url,
                  req_headers = [(''Cookie'', ''JSESSIONID='' @ toString (session_id (session c)) @ '';'')],
                  req_body = None \<rparr>
      in thenP (thenP (fetch vendor req) plain_json)
           (\<lambda>res c1.
              case get_prop res ''data'' of
                Inl e \<Rightarrow> (Inl e, c1)
              | Inr dat \<Rightarrow>
                  (case bindE (get_prop dat ''paUrl'') (\<lambda>u1.
                        bindE (get_prop dat ''productSearchUrl'') (\<lambda>u2.
                        bindE (get_prop dat ''productTypesUrl'') (\<lambda>u3.
                        bindE (get_prop dat ''reportingUrl'') (\<lambda>u4.
                        bindE (get_prop dat ''tradingUrl'') (\<lambda>u5.
                        bindE (get_prop dat ''vwdQuotecastServiceUrl'') (\<lambda>u6.
                          Inr \<lparr> paUrl = u1, productSearchUrl = u2, productTypesUrl = u3,
                                reportingUrl = u4, tradingUrl = u5,
                                vwdQuotecastServiceUrl = u6 \<rparr>)))))) of
                     Inl e \<Rightarrow> (Inl e, c1)
                   | Inr us \<Rightarrow> (Inr (), c1\<lparr>urls := us\<rparr>))) c)"

definition getClientInfo_loose :: "vendor \<Rightarrow> jsvalue promise" where
  "getClientInfo_loose vendor c =
     (let url = toString (paUrl (urls c)) @ ''client?sessionId=''
                @ toString (session_id (session c))
      in thenP (thenP (fetch vendor (GET url)) plain_json)
           (\<lambda>info c1.
              case bindE (get_prop info ''data'') (\<lambda>dat.
                   bindE (get_prop dat ''intAccount'') (\<lambda>acc.
                   bindE (get_prop dat ''id'') (\<lambda>tok. Inr (dat, acc, tok)))) of
                Inl e \<Rightarrow> (Inl e, c1)
              | Inr (dat, acc, tok) \<Rightarrow>
                  (Inr dat, c1\<lparr>session := (session c1)\<lparr>account := acc, userToken := tok,
                                                      clientInfo := dat\<rparr>\<rparr>)) c)"

definition sendLoginRequest_loose ::
  "deps \<Rightarrow> vendor \<Rightarrow> string \<Rightarrow> jsvalue \<Rightarrow> session_t promise" where
  "sendLoginRequest_loose d vendor url params =
     thenP (thenP (thenP (thenP
       (fetch vendor (login_request url params))
       (\<lambda>res c.
          let c1 = c\<lparr>session := (session c)\<lparr>session_id := JSESSIONID_of d res\<rparr>\<rparr>
          in if \<not> truthy (session_id (session c1)) then (Inl Login_nok, c1)
             else (Inr (), c1)))
       (\<lambda>u. updateConfig_loose vendor))
       (\<lambda>u. getClientInfo_loose vendor))
       (\<lambda>dat c. (Inr (session c), c))"

definition login_loose :: "deps \<Rightarrow> vendor \<Rightarrow> options \<Rightarrow> session_t promise" where
  "login_loose d vendor opts = sendLoginRequest_loose d vendor (login_url opts) (loginParams opts)"

subsection \<open>Auxiliary notions for the properties\<close>

text \<open>
  A promise keeps the session and the routing URLs when, from every client state, the
  state it leaves has the same \<open>session\<close> and \<open>urls\<close> objects.
\<close>

definition keeps_session_urls :: "'a promise \<Rightarrow> bool" where
  "keeps_session_urls p = (\<forall>c. session (snd (p c)) = session c \<and> urls (snd (p c)) = urls c)"

text \<open>
  A well-shaped entry of \<open>data.cashFunds.value\<close>: its \<open>value\<close> is an array, none of whose
  elements is \<open>undefined\<close> or \<open>null\<close>.
\<close>

definition well_shaped_entry :: "jsvalue \<Rightarrow> bool" where
  "well_shaped_entry e =
     (case get_prop e ''value'' of
        Inr (JArr ps) \<Rightarrow> list_all (\<lambda>p. \<not> isNil p) ps
      | _ \<Rightarrow> False)"

text \<open>Stand-ins for the imported functions, for the concrete runs below.\<close>

definition simple_parseCookies :: "string \<Rightarrow> (string \<times> string) list" where
  "simple_parseCookies s = (case split_on CHR ''='' s of [k, v] \<Rightarrow> [(k, v)] | _ \<Rightarrow> [])"

definition simple_stringify :: "(string \<times> jsvalue) list \<Rightarrow> string" where
  "simple_stringify opts = concat (map (\<lambda>(k, v). k @ ''='' @ toString v @ ''&'') opts)"

definition simple_deps :: deps where
  "simple_deps =
     \<lparr> parseCookies = simple_parseCookies, querystring_stringify = simple_stringify,
       encodeURI = (\<lambda>s. s), TimeTypes_day = JNum 1, ProductTypes_all = JUndefined \<rparr>"

text \<open>A client after a login: session \<open>S1\<close>, account 42, user token 7.\<close>

definition logged_in :: client where
  "logged_in =
     \<lparr> session = \<lparr> session_id = JStr ''S1'', account = JNum 42, userToken = JNum 7,
                    clientInfo = JNull, session_data = JUndefined \<rparr>,
       urls = \<lparr> paUrl = JStr ''https://pa/'', productSearchUrl = JStr ''https://ps/'',
                 productTypesUrl = JStr ''https://pt/'', reportingUrl = JStr ''https://rp/'',
                 tradingUrl = JStr ''https://tr/'', vwdQuotecastServiceUrl = JStr ''https://vwd/'' \<rparr>,
       sent = [] \<rparr>"

definition ok_response :: "jsvalue \<Rightarrow> fetch_result" where
  "ok_response body =
     Response \<lparr> status = 200, statusText = ''OK'', set_cookie = None, json_body = Some body \<rparr>"

text \<open>A cash-funds response whose one entry carries the two keys to strip.\<close>

definition cashFunds_entries :: "jsvalue list" where
  "cashFunds_entries =
     [JObj [(''id'', JNum 1), (''value'', JArr
        [JObj [(''name'', JStr ''currencyCode''), (''value'', JStr ''EUR'')],
         JObj [(''name'', JStr ''handling''), (''value'', JStr ''x'')],
         JObj [(''name'', JStr ''value''), (''value'', JNum 100)]])]]"

definition cashFunds_example :: jsvalue where
  "cashFunds_example = JObj [(''cashFunds'', JObj [(''value'', JArr cashFunds_entries)])]"

text \<open>
  An order, and a vendor that accepts the check with a confirmation id and then fails
  the confirmation.
\<close>

definition order_example :: jsvalue where
  "order_example =
     JObj [(''buySell'', JNum 0), (''orderType'', JNum 0), (''productId'', JStr ''8066561''),
           (''size'', JNum 1), (''price'', JNum 10)]"

definition check_then_fail :: vendor where
  "check_then_fail reqs =
     (if length reqs = 1 then
        ok_response (JObj [(''data'', JObj [(''confirmationId'', JStr ''abc-1'')])])
      else
        Response \<lparr> status = 500, statusText = ''Internal Server Error'', set_cookie = None,
                   json_body = Some (JObj [(''errors'', JArr [JObj [(''text'', JStr ''rejected'')]])]) \<rparr>)"

text \<open>Rows of a poll for the instrument \<open>360015751\<close>, and a heartbeat.\<close>

definition a_req_row :: jsvalue where
  "a_req_row = JObj [(''m'', JStr ''a_req''), (''v'', JArr [JStr ''360015751.BidPrice'', JNum 1234])]"

definition un_row :: jsvalue where
  "un_row = JObj [(''m'', JStr ''un''), (''v'', JArr [JNum 1234, JNum 12])]"

definition heartbeat :: jsvalue where
  "heartbeat = JArr [JObj [(''m'', JStr ''h'')]]"

text \<open>
  A quote service whose first \<open>n\<close> polls answer with a heartbeat and the later ones
  with data. Each round of the client is three requests: the session request
  (answered with the number of the round as session id), the subscription, the poll.
\<close>

definition heartbeats_then_data :: "nat \<Rightarrow> vendor" where
  "heartbeats_then_data n reqs =
     (let i = length reqs;
          round = (i + 2) div 3
      in if i mod 3 = 1 then ok_response (JObj [(''sessionId'', JNum (int round))])
         else if i mod 3 = 2 then ok_response JNull
         else if round \<le> n then ok_response heartbeat
         else ok_response (JArr [a_req_row, un_row]))"

text \<open>
  Credentials, and a vendor for the bootstrap: it answers the login request with the
  given response, the second request with the routing URLs, the third with the client
  data (account 42, user token 7).
\<close>

definition credentials :: options where
  "credentials =
     \<lparr> username = JStr ''user'', password = JStr ''secret'', oneTimePassword = JUndefined,
       sessionId = JUndefined, account_opt = JUndefined \<rparr>"

definition bootstrap_vendor :: "http_response \<Rightarrow> vendor" where
  "bootstrap_vendor first reqs =
     (if length reqs = 1 then Response first
      else if length reqs = 2 then
        ok_response (JObj [(''data'', JObj
          [(''paUrl'', JStr ''https://pa/''), (''productSearchUrl'', JStr ''https://ps/''),
           (''productTypesUrl'', JStr ''https://pt/''), (''reportingUrl'', JStr ''https://rp/''),
           (''tradingUrl'', JStr ''https://tr/''),
           (''vwdQuotecastServiceUrl'', JStr ''https://vwd/'')])])
      else ok_response (JObj [(''data'', JObj [(''intAccount'', JNum 42), (''id'', JNum 7)])]))"

text \<open>
  Three answers to a login: success with a session cookie and an error payload in the
  body; a rejection with an error payload; success without a cookie.
\<close>

definition ok_with_errors :: http_response where
  "ok_with_errors =
     \<lparr> status = 200, statusText = ''OK'', set_cookie = Some ''JSESSIONID=abc'',
       json_body = Some (JObj [(''errors'', JArr [JObj [(''text'', JStr ''boom'')]])]) \<rparr>"

definition unauthorized :: http_response where
  "unauthorized =
     \<lparr> status = 401, statusText = ''Unauthorized'', set_cookie = Some ''JSESSIONID=abc'',
       json_body = Some (JObj [(''errors'', JArr [JObj [(''text'', JStr ''bad credentials'')]])]) \<rparr>"

definition ok_without_cookie :: http_response where
  "ok_without_cookie =
     \<lparr> status = 200, statusText = ''OK'', set_cookie = None, json_body = Some (JObj []) \<rparr>"

section \<open>Properties\<close>

subsection \<open>Basic facts\<close>

lemma bindE_Inl [simp]: "bindE (Inl e) f = Inl e"
  by (simp add: bindE_def)

lemma bindE_Inr [simp]: "bindE (Inr x) f = f x"
  by (simp add: bindE_def)

lemma thenP_undefined_isl:
  assumes "fst (p c) = Inr JUndefined \<or> isl (fst (p c))" and "isl (g JUndefined)"
  shows "isl (fst (thenP p (\<lambda>x. settle (g x)) c))"
  using assms by (cases "p c") (auto simp: thenP_def settle_def isl_def)

subsection \<open>The client with looser validation\<close>

lemma getData_loose_result:
  "fst (getData_loose d vendor opts c) =
     (case vendor (sent c @ [GET (getData_url d opts c)]) of
        NetworkFailure \<Rightarrow> Inl FetchError
      | Response res \<Rightarrow>
          (case json_body res of None \<Rightarrow> Inl SyntaxError | Some body \<Rightarrow> Inr log_result))"
  by (simp add: getData_loose_def thenP_def fetch_def settle_def res_json_def Let_def
      split: fetch_result.split option.split)

lemma getData_loose_cases:
  "fst (getData_loose d vendor opts c) = Inr JUndefined
   \<or> isl (fst (getData_loose d vendor opts c))"
  by (simp add: getData_loose_result log_result_def split: fetch_result.split option.split)

lemma cashFunds_of_undefined: "cashFunds_of JUndefined = Inl TypeError"
  by (simp add: cashFunds_of_def)

lemma portfolio_of_undefined: "portfolio_of JUndefined = Inl TypeError"
  by (simp add: portfolio_of_def)

lemma orders_of_undefined: "orders_of now JUndefined = Inl TypeError"
  by (simp add: orders_of_def has_value_array_def)

lemma checkSuccess_loose_undefined: "checkSuccess_loose JUndefined = Inl TypeError"
  by (simp add: checkSuccess_loose_def)

lemma checkOrder_loose_result:
  "fst (checkOrder_loose vendor ord c) =
     (case get_prop ord ''buySell'' of
        Inl e \<Rightarrow> Inl e
      | Inr b \<Rightarrow>
         (case vendor (sent c @ [\<lparr> req_method = ''POST'', req_url = checkOrder_url c,
                                   req_headers = json_headers, req_body = Some ord \<rparr>]) of
            NetworkFailure \<Rightarrow> Inl FetchError
          | Response res \<Rightarrow>
             (case json_body res of
                None \<Rightarrow> Inl SyntaxError
              | Some body \<Rightarrow>
                  bindE (checkSuccess_loose log_result) (\<lambda>json.
                  bindE (get_prop json ''confirmationId'') (\<lambda>cid.
                    Inr (JObj [(''order'', ord), (''confirmationId'', cid)]))))))"
  by (simp add: checkOrder_loose_def thenP_def fetch_def settle_def res_json_def Let_def
      split: fetch_result.split option.split sum.split)

text \<open>
  Claim C10. In the client with looser validation, whatever the vendor answers,
  \<open>getData\<close> resolves to the value \<open>log\<close> returns, which is \<open>undefined\<close>, and never to the
  parsed body (it rejects when the request fails or the body is not JSON); so
  \<open>getCashFunds\<close>, \<open>getPortfolio\<close> and \<open>getOrders\<close> reject on every response; and
  \<open>checkOrder\<close> hands the value \<open>log\<close> returned to \<open>checkSuccess\<close>, not the parsed body,
  which makes \<open>checkSuccess\<close> throw a \<open>TypeError\<close>.
\<close>

theorem loose_variant_loses_response:
  "fst (getData_loose d vendor opts c) =
     (case vendor (sent c @ [GET (getData_url d opts c)]) of
        NetworkFailure \<Rightarrow> Inl FetchError
      | Response res \<Rightarrow>
          (case json_body res of None \<Rightarrow> Inl SyntaxError | Some body \<Rightarrow> Inr log_result))
   \<and> log_result = JUndefined
   \<and> isl (fst (getCashFunds_loose d vendor c))
   \<and> isl (fst (getPortfolio_loose d vendor c))
   \<and> isl (fst (getOrders_loose d vendor now c))
   \<and> fst (checkOrder_loose vendor ord c) =
     (case get_prop ord ''buySell'' of
        Inl e \<Rightarrow> Inl e
      | Inr b \<Rightarrow>
         (case vendor (sent c @ [\<lparr> req_method = ''POST'', req_url = checkOrder_url c,
                                   req_headers = json_headers, req_body = Some ord \<rparr>]) of
            NetworkFailure \<Rightarrow> Inl FetchError
          | Response res \<Rightarrow>
             (case json_body res of
                None \<Rightarrow> Inl SyntaxError
              | Some body \<Rightarrow>
                  bindE (checkSuccess_loose log_result) (\<lambda>json.
                  bindE (get_prop json ''confirmationId'') (\<lambda>cid.
                    Inr (JObj [(''order'', ord), (''confirmationId'', cid)]))))))
   \<and> checkSuccess_loose log_result = Inl TypeError"
proof -
  have a: "isl (fst (getCashFunds_loose d vendor c))"
    unfolding getCashFunds_loose_def
    by (rule thenP_undefined_isl [OF getData_loose_cases]) (simp add: cashFunds_of_undefined)
  have b: "isl (fst (getPortfolio_loose d vendor c))"
    unfolding getPortfolio_loose_def
    by (rule thenP_undefined_isl [OF getData_loose_cases]) (simp add: portfolio_of_undefined)
  have e: "isl (fst (getOrders_loose d vendor now c))"
    unfolding getOrders_loose_def
    by (rule thenP_undefined_isl [OF getData_loose_cases]) (simp add: orders_of_undefined)
  show ?thesis
    using a b e
    by (simp add: getData_loose_result checkOrder_loose_result log_result_def
        checkSuccess_loose_undefined)
qed

theorem loose_variant_loses_response_witness:
  "fst (getData_loose simple_deps (\<lambda>reqs. ok_response cashFunds_example)
          [(''cashFunds'', JNum 0)] logged_in) = Inr JUndefined
   \<and> fst (getCashFunds_loose simple_deps (\<lambda>reqs. ok_response cashFunds_example) logged_in)
       = Inl TypeError
   \<and> fst (getData simple_deps (\<lambda>reqs. ok_response cashFunds_example)
          [(''cashFunds'', JNum 0)] logged_in) = Inr cashFunds_example"
proof -
  note t = loose_variant_loses_response
    [of simple_deps "\<lambda>reqs. ok_response cashFunds_example" "[(''cashFunds'', JNum 0)]"
      logged_in 0 JUndefined]
  have a: "fst (getData_loose simple_deps (\<lambda>reqs. ok_response cashFunds_example)
          [(''cashFunds'', JNum 0)] logged_in) = Inr JUndefined"
    using t by (simp add: ok_response_def)
  have b: "fst (getCashFunds_loose simple_deps (\<lambda>reqs. ok_response cashFunds_example) logged_in)
       = Inl TypeError"
    by code_simp
  have c: "fst (getData simple_deps (\<lambda>reqs. ok_response cashFunds_example)
          [(''cashFunds'', JNum 0)] logged_in) = Inr cashFunds_example"
    by code_simp
  from a b c show ?thesis by simp
qed

text \<open>
  The same variant lets a login through when the vendor rejects it with status 401
  but sets a session cookie, and its \<open>requestVwdSession\<close> resolves to \<open>undefined\<close>, from
  which \<open>getAskBidPrice\<close> cannot read \<open>sessionId\<close>.
\<close>

lemma login_loose_ignores_status:
  "fst (login_loose simple_deps (bootstrap_vendor unauthorized) credentials (create credentials)) =
     Inr \<lparr> session_id = JStr ''abc'', account = JNum 42, userToken = JNum 7,
           clientInfo = JObj [(''intAccount'', JNum 42), (''id'', JNum 7)],
           session_data = JUndefined \<rparr>"
  by code_simp

lemma requestVwdSession_loose_result:
  "fst (requestVwdSession_loose vendor c) = Inr x \<Longrightarrow>
     x = JUndefined \<and> get_prop x ''sessionId'' = Inl TypeError"
  by (auto simp: requestVwdSession_loose_def Let_def thenP_def fetch_def settle_def
      res_json_def log_result_def split: fetch_result.splits option.splits)

subsection \<open>The session and the routing URLs are written by the bootstrap only\<close>

lemma keeps_settle: "keeps_session_urls (settle r)"
  by (simp add: keeps_session_urls_def settle_def)

lemma keeps_fetch: "keeps_session_urls (fetch vendor req)"
  by (simp add: keeps_session_urls_def fetch_def Let_def split: fetch_result.split)

lemma keeps_thenP:
  assumes "keeps_session_urls p" and "\<And>x. keeps_session_urls (f x)"
  shows "keeps_session_urls (thenP p f)"
  unfolding keeps_session_urls_def thenP_def
proof
  fix c
  obtain r c' where pc: "p c = (r, c')" by (cases "p c")
  from assms(1) pc have c': "session c' = session c \<and> urls c' = urls c"
    unfolding keeps_session_urls_def by (metis snd_conv)
  show "session (snd (case p c of (Inl e, c') \<Rightarrow> (Inl e, c') | (Inr x, c') \<Rightarrow> f x c')) = session c \<and>
        urls (snd (case p c of (Inl e, c') \<Rightarrow> (Inl e, c') | (Inr x, c') \<Rightarrow> f x c')) = urls c"
  proof (cases r)
    case (Inl e)
    with pc c' show ?thesis by simp
  next
    case (Inr x)
    with pc c' assms(2) [of x] show ?thesis
      unfolding keeps_session_urls_def by simp
  qed
qed

lemma keeps_at: "keeps_session_urls p \<Longrightarrow> session (snd (p c)) = session c \<and> urls (snd (p c)) = urls c"
  by (simp add: keeps_session_urls_def)

lemma keeps_checked_json: "keeps_session_urls (checked_json res)"
  by (simp add: checked_json_def keeps_settle)

lemma keeps_fetch_checked: "keeps_session_urls (thenP (fetch vendor req) checked_json)"
  by (intro keeps_thenP keeps_fetch keeps_checked_json)

lemma keeps_getData: "keeps_session_urls (getData d vendor opts)"
  unfolding keeps_session_urls_def getData_def
  using keeps_fetch_checked by (simp add: keeps_session_urls_def)

lemma keeps_getCashFunds: "keeps_session_urls (getCashFunds d vendor)"
  unfolding getCashFunds_def by (intro keeps_thenP keeps_getData keeps_settle)

lemma keeps_getPortfolio: "keeps_session_urls (getPortfolio d vendor)"
  unfolding getPortfolio_def by (intro keeps_thenP keeps_getData keeps_settle)

lemma keeps_getOrders: "keeps_session_urls (getOrders d vendor now)"
  unfolding getOrders_def by (intro keeps_thenP keeps_getData keeps_settle)

lemma keeps_getTasks: "keeps_session_urls (getTasks vendor)"
  unfolding keeps_session_urls_def getTasks_def Let_def
  using keeps_fetch_checked by (simp add: keeps_session_urls_def)

lemma keeps_getOrdersHistory: "keeps_session_urls (getOrdersHistory d vendor a b)"
  unfolding keeps_session_urls_def getOrdersHistory_def Let_def
  using keeps_fetch_checked by (simp add: keeps_session_urls_def)

lemma keeps_getTransactions: "keeps_session_urls (getTransactions d vendor a b g)"
  unfolding keeps_session_urls_def getTransactions_def Let_def
  using keeps_fetch_checked by (simp add: keeps_session_urls_def)

lemma keeps_searchProduct: "keeps_session_urls (searchProduct d vendor arg)"
  unfolding keeps_session_urls_def searchProduct_def Let_def
  using keeps_fetch_checked by (simp add: keeps_session_urls_def split: sum.split)

lemma keeps_deleteOrder: "keeps_session_urls (deleteOrder vendor orderId)"
  unfolding keeps_session_urls_def deleteOrder_def
  using keeps_fetch_checked by (simp add: keeps_session_urls_def)

lemma keeps_checked_then:
  "keeps_session_urls (thenP (thenP (fetch vendor req) checked_json) (\<lambda>json. settle (g json)))"
  by (intro keeps_thenP keeps_fetch keeps_checked_json keeps_settle)

lemma keeps_checkOrder: "keeps_session_urls (checkOrder vendor ord)"
  unfolding keeps_session_urls_def
proof
  fix c
  show "session (snd (checkOrder vendor ord c)) = session c
        \<and> urls (snd (checkOrder vendor ord c)) = urls c"
    by (simp add: checkOrder_def keeps_at [OF keeps_checked_then] split: sum.split)
qed

lemma keeps_confirmOrder: "keeps_session_urls (confirmOrder vendor arg)"
  unfolding keeps_session_urls_def
proof
  fix c
  show "session (snd (confirmOrder vendor arg c)) = session c
        \<and> urls (snd (confirmOrder vendor arg c)) = urls c"
    by (simp add: confirmOrder_def keeps_at [OF keeps_checked_then] split: sum.split prod.split)
qed

lemma keeps_check_confirm:
  "keeps_session_urls (thenP (checkOrder vendor ord) (confirmOrder vendor))"
  by (intro keeps_thenP keeps_checkOrder keeps_confirmOrder)

lemma keeps_setOrder: "keeps_session_urls (setOrder d vendor arg)"
  unfolding keeps_session_urls_def
proof
  fix c
  show "session (snd (setOrder d vendor arg c)) = session c
        \<and> urls (snd (setOrder d vendor arg c)) = urls c"
    by (simp add: setOrder_def keeps_at [OF keeps_check_confirm] split: sum.split)
qed

lemma keeps_getProductsByIds: "keeps_session_urls (getProductsByIds vendor ids)"
  unfolding keeps_session_urls_def getProductsByIds_def Let_def
  using keeps_fetch_checked by (simp add: keeps_session_urls_def split: sum.split)

lemma keeps_requestVwdSession: "keeps_session_urls (requestVwdSession vendor)"
  unfolding keeps_session_urls_def requestVwdSession_def Let_def
  using keeps_fetch_checked by (simp add: keeps_session_urls_def)

lemma keeps_subscribe_and_poll: "keeps_session_urls (subscribe_and_poll vendor issueId)"
  unfolding subscribe_and_poll_def
  by (intro keeps_thenP keeps_requestVwdSession keeps_settle keeps_fetch keeps_checked_json)

lemma getAskBidPrice_frame:
  "session (snd (getAskBidPrice vendor issueId n c)) = session c
   \<and> urls (snd (getAskBidPrice vendor issueId n c)) = urls c"
proof (induction vendor issueId n c rule: getAskBidPrice.induct)
  case (1 vendor issueId timesChecked c)
  obtain r c' where sp: "subscribe_and_poll vendor issueId c = (r, c')"
    by (cases "subscribe_and_poll vendor issueId c")
  from keeps_at [OF keeps_subscribe_and_poll, of vendor issueId c] sp
  have c': "session c' = session c \<and> urls c' = urls c" by simp
  show ?case
  proof (cases r)
    case (Inl e)
    with sp c' show ?thesis by (simp add: getAskBidPrice.simps [of vendor issueId timesChecked c])
  next
    case (Inr res)
    show ?thesis
    proof (cases "\<exists>rows. res = JArr rows \<and> heartbeat_only rows = Inr True \<and> timesChecked + 1 \<le> 3")
      case True
      then obtain rows where rows: "res = JArr rows" "heartbeat_only rows = Inr True" "timesChecked + 1 \<le> 3"
        by blast
      from "1.IH" [OF sp [symmetric] Inr refl rows(1) rows(2) refl rows(3)]
      have "session (snd (getAskBidPrice vendor issueId (timesChecked + 1) c')) = session c'
        \<and> urls (snd (getAskBidPrice vendor issueId (timesChecked + 1) c')) = urls c'"
        by simp
      with sp Inr rows c' show ?thesis
        by (simp add: getAskBidPrice.simps [of vendor issueId timesChecked c])
    next
      case False
      with sp Inr c' show ?thesis
        by (auto simp add: getAskBidPrice.simps [of vendor issueId timesChecked c] Let_def
            split: jsvalue.split sum.split bool.split)
    qed
  qed
qed

text \<open>
  Claim C9. Every operation other than the bootstrap sequence (\<open>searchProduct\<close>,
  \<open>getData\<close>, \<open>getCashFunds\<close>, \<open>getPortfolio\<close>, \<open>getAskBidPrice\<close>, \<open>checkOrder\<close>,
  \<open>confirmOrder\<close>, \<open>setOrder\<close>, \<open>deleteOrder\<close>, \<open>getOrders\<close>, \<open>getTasks\<close>,
  \<open>getOrdersHistory\<close>, \<open>getTransactions\<close>, \<open>getProductsByIds\<close>) leaves the session record
  and the routing-URL record as they were, whatever the vendor answers and whether the
  operation resolves or rejects.
\<close>

theorem operations_keep_session_and_urls:
  "(session (snd (searchProduct d vendor arg c)) = session c
      \<and> urls (snd (searchProduct d vendor arg c)) = urls c)
   \<and> (session (snd (getData d vendor opts c)) = session c
      \<and> urls (snd (getData d vendor opts c)) = urls c)
   \<and> (session (snd (getCashFunds d vendor c)) = session c
      \<and> urls (snd (getCashFunds d vendor c)) = urls c)
   \<and> (session (snd (getPortfolio d vendor c)) = session c
      \<and> urls (snd (getPortfolio d vendor c)) = urls c)
   \<and> (session (snd (getAskBidPrice vendor issueId timesChecked c)) = session c
      \<and> urls (snd (getAskBidPrice vendor issueId timesChecked c)) = urls c)
   \<and> (session (snd (checkOrder vendor ord c)) = session c
      \<and> urls (snd (checkOrder vendor ord c)) = urls c)
   \<and> (session (snd (confirmOrder vendor checked c)) = session c
      \<and> urls (snd (confirmOrder vendor checked c)) = urls c)
   \<and> (session (snd (setOrder d vendor arg c)) = session c
      \<and> urls (snd (setOrder d vendor arg c)) = urls c)
   \<and> (session (snd (deleteOrder vendor orderId c)) = session c
      \<and> urls (snd (deleteOrder vendor orderId c)) = urls c)
   \<and> (session (snd (getOrders d vendor now c)) = session c
      \<and> urls (snd (getOrders d vendor now c)) = urls c)
   \<and> (session (snd (getTasks vendor c)) = session c
      \<and> urls (snd (getTasks vendor c)) = urls c)
   \<and> (session (snd (getOrdersHistory d vendor fromDate toDate c)) = session c
      \<and> urls (snd (getOrdersHistory d vendor fromDate toDate c)) = urls c)
   \<and> (session (snd (getTransactions d vendor fromDate toDate groupByOrder c)) = session c
      \<and> urls (snd (getTransactions d vendor fromDate toDate groupByOrder c)) = urls c)
   \<and> (session (snd (getProductsByIds vendor ids c)) = session c
      \<and> urls (snd (getProductsByIds vendor ids c)) = urls c)"
  by (simp add: keeps_at [OF keeps_searchProduct] keeps_at [OF keeps_getData]
      keeps_at [OF keeps_getCashFunds] keeps_at [OF keeps_getPortfolio]
      getAskBidPrice_frame keeps_at [OF keeps_checkOrder] keeps_at [OF keeps_confirmOrder]
      keeps_at [OF keeps_setOrder] keeps_at [OF keeps_deleteOrder]
      keeps_at [OF keeps_getOrders] keeps_at [OF keeps_getTasks]
      keeps_at [OF keeps_getOrdersHistory] keeps_at [OF keeps_getTransactions]
      keeps_at [OF keeps_getProductsByIds])

subsection \<open>Cash funds\<close>

lemma omit_no_key: "k \<in> set ks \<Longrightarrow> k \<notin> fst ` set (omit obj ks)"
  by (auto simp: omit_def)

lemma cashFunds_entry_keys:
  assumes "cashFunds_entry e = Inr r"
  shows "\<exists>kvs. r = JObj kvs \<and> ''handling'' \<notin> fst ` set kvs \<and> ''currencyCode'' \<notin> fst ` set kvs"
proof -
  from assms obtain pairs where "r = JObj (omit (fromPairs pairs) [''handling'', ''currencyCode''])"
    by (auto simp: cashFunds_entry_def bindE_def split: sum.splits)
  then show ?thesis
    using omit_no_key [of "''handling''" "[''handling'', ''currencyCode'']"]
      omit_no_key [of "''currencyCode''" "[''handling'', ''currencyCode'']"]
    by simp
qed

lemma mapE_Inr_all:
  assumes "mapE f xs = Inr ys" and "\<And>x y. f x = Inr y \<Longrightarrow> P y"
  shows "list_all P ys \<and> length ys = length xs"
  using assms(1)
proof (induction xs arbitrary: ys)
  case Nil
  then show ?case by simp
next
  case (Cons x xs)
  then show ?case
    using assms(2) by (auto simp: bindE_def split: sum.splits)
qed

lemma mapE_succeeds:
  assumes "list_all (\<lambda>x. \<exists>y. f x = Inr y) xs"
  shows "\<exists>ys. mapE f xs = Inr ys"
  using assms by (induction xs) auto

lemma name_value_pair_succeeds:
  "\<not> isNil p \<Longrightarrow> \<exists>y. name_value_pair p = Inr y"
  by (cases p) (simp_all add: name_value_pair_def isNil_def)


lemma cashFunds_entry_succeeds:
  assumes "well_shaped_entry e"
  shows "\<exists>r. cashFunds_entry e = Inr r"
proof -
  from assms obtain ps where v: "get_prop e ''value'' = Inr (JArr ps)"
    and ps: "list_all (\<lambda>p. \<not> isNil p) ps"
    by (auto simp: well_shaped_entry_def split: sum.splits jsvalue.splits)
  from ps have "list_all (\<lambda>p. \<exists>y. name_value_pair p = Inr y) ps"
    by (induction ps) (auto dest: name_value_pair_succeeds)
  then obtain pairs where "mapE name_value_pair ps = Inr pairs"
    using mapE_succeeds by blast
  with v show ?thesis
    by (simp add: cashFunds_entry_def array_map_def)
qed

lemma getData_ok:
  assumes "vendor (sent c @ [GET (getData_url d opts c)]) = Response res"
    and "res_ok res" and "json_body res = Some dat"
  shows "fst (getData d vendor opts c) = Inr dat"
  using assms
  by (simp add: getData_def thenP_def fetch_def Let_def checked_json_def settle_def
      res_json_def checkSuccess_def)

lemma thenP_settle_fst:
  "fst (p c) = Inr x \<Longrightarrow> fst (thenP p (\<lambda>y. settle (g y)) c) = g x"
  by (cases "p c") (auto simp: thenP_def settle_def)

text \<open>
  Claim C6. For every well-shaped \<open>cashFunds\<close> response (a success response whose
  \<open>cashFunds.value\<close> is an array of entries, each with an array \<open>value\<close> of name-value
  objects), \<open>getCashFunds\<close> resolves to \<open>{cashFunds: [...]}\<close> with one object per vendor
  entry, and no such object has a key \<open>handling\<close> or a key \<open>currencyCode\<close>, whether or
  not the vendor entry had them.
\<close>

theorem getCashFunds_omits_handling_and_currencyCode:
  assumes "vendor (sent c @ [GET (getData_url d [(''cashFunds'', JNum 0)] c)]) = Response res"
    and "res_ok res" and "json_body res = Some dat"
    and "get_prop dat ''cashFunds'' = Inr cf"
    and "get_prop cf ''value'' = Inr (JArr entries)"
    and "list_all well_shaped_entry entries"
  shows "\<exists>es. fst (getCashFunds d vendor c) = Inr (JObj [(''cashFunds'', JArr es)])
          \<and> length es = length entries
          \<and> list_all (\<lambda>e. \<exists>kvs. e = JObj kvs \<and> ''handling'' \<notin> fst ` set kvs
                               \<and> ''currencyCode'' \<notin> fst ` set kvs) es"
proof -
  from assms(6) have "list_all (\<lambda>e. \<exists>r. cashFunds_entry e = Inr r) entries"
    by (induction entries) (auto dest: cashFunds_entry_succeeds)
  then obtain es where es: "mapE cashFunds_entry entries = Inr es"
    using mapE_succeeds by blast
  from assms(5) have "truthy cf"
    by (cases cf) simp_all
  with assms(4,5) es have "cashFunds_of dat = Inr (JObj [(''cashFunds'', JArr es)])"
    by (simp add: cashFunds_of_def array_map_def)
  with getData_ok [where vendor = vendor and c = c, OF assms(1-3)]
  have "fst (getCashFunds d vendor c) = Inr (JObj [(''cashFunds'', JArr es)])"
    by (simp add: getCashFunds_def thenP_settle_fst)
  moreover from mapE_Inr_all [OF es, of "\<lambda>e. \<exists>kvs. e = JObj kvs \<and> ''handling'' \<notin> fst ` set kvs
                               \<and> ''currencyCode'' \<notin> fst ` set kvs"] cashFunds_entry_keys
  have "list_all (\<lambda>e. \<exists>kvs. e = JObj kvs \<and> ''handling'' \<notin> fst ` set kvs
                               \<and> ''currencyCode'' \<notin> fst ` set kvs) es \<and> length es = length entries"
    by blast
  ultimately show ?thesis by blast
qed

theorem getCashFunds_omits_keys_witness:
  "\<exists>es. fst (getCashFunds simple_deps (\<lambda>reqs. ok_response cashFunds_example) logged_in)
          = Inr (JObj [(''cashFunds'', JArr es)])
      \<and> length es = length cashFunds_entries
      \<and> list_all (\<lambda>e. \<exists>kvs. e = JObj kvs \<and> ''handling'' \<notin> fst ` set kvs
                               \<and> ''currencyCode'' \<notin> fst ` set kvs) es"
  using getCashFunds_omits_handling_and_currencyCode
    [of "\<lambda>reqs. ok_response cashFunds_example" logged_in simple_deps
      "\<lparr> status = 200, statusText = ''OK'', set_cookie = None,
         json_body = Some cashFunds_example \<rparr>"
      cashFunds_example "JObj [(''value'', JArr cashFunds_entries)]" cashFunds_entries]
  by (simp add: ok_response_def res_ok_def obj_get_def well_shaped_entry_def isNil_def
      cashFunds_example_def cashFunds_entries_def)

subsection \<open>The order pipeline\<close>

lemma order_of_arg_is_object:
  "order_of_arg d arg = Inr ord \<Longrightarrow> \<exists>kvs. ord = JObj kvs"
  by (auto simp: order_of_arg_def bindE_def split: sum.splits)

lemma fetch_sent: "sent (snd (fetch vendor req c)) = sent c @ [req]"
  by (simp add: fetch_def Let_def split: fetch_result.split)

lemma checkOrder_ok:
  assumes "ord = JObj kvs"
    and "vendor (sent c @ [\<lparr> req_method = ''POST'', req_url = checkOrder_url c,
                              req_headers = json_headers, req_body = Some ord \<rparr>]) = Response res"
    and "res_ok res" and "json_body res = Some json"
    and "get_prop json ''data'' = Inr dat" and "get_prop dat ''confirmationId'' = Inr cid"
  shows "checkOrder vendor ord c =
           (Inr (JObj [(''order'', ord), (''confirmationId'', cid)]),
            c\<lparr>sent := sent c @ [\<lparr> req_method = ''POST'', req_url = checkOrder_url c,
                              req_headers = json_headers, req_body = Some ord \<rparr>]\<rparr>)"
  using assms
  by (simp add: checkOrder_def thenP_def fetch_def Let_def checked_json_def settle_def
      res_json_def checkSuccess_def bindE_def)

lemma confirmOrder_sent:
  "sent (snd (confirmOrder vendor (JObj [(''order'', ord), (''confirmationId'', cid)]) c)) =
     sent c @ [\<lparr> req_method = ''POST'', req_url = confirmOrder_url c cid,
                 req_headers = json_headers, req_body = Some ord \<rparr>]"
  by (simp add: confirmOrder_def obj_get_def bindE_def thenP_def fetch_def Let_def checked_json_def settle_def
      split: fetch_result.split sum.split prod.split)


text \<open>
  Claim C3. For every order and every check response that carries a confirmation id,
  \<open>setOrder\<close> is \<open>checkOrder\<close> followed by \<open>confirmOrder\<close> with nothing in between;
  \<open>checkOrder\<close> resolves to the order and the confirmation id of the response; the
  request of \<open>confirmOrder\<close> goes to the path \<open>v5/order/<confirmationId>\<close> with that very
  id; and these two requests are all that \<open>setOrder\<close> sends, whatever the vendor answers
  to the second: no request follows a failed confirmation.
\<close>

theorem setOrder_check_then_confirm:
  assumes "order_of_arg d arg = Inr ord"
    and "vendor (sent c @ [\<lparr> req_method = ''POST'', req_url = checkOrder_url c,
                              req_headers = json_headers, req_body = Some ord \<rparr>]) = Response res"
    and "res_ok res" and "json_body res = Some json"
    and "get_prop json ''data'' = Inr dat" and "get_prop dat ''confirmationId'' = Inr cid"
  shows "setOrder d vendor arg c = thenP (checkOrder vendor ord) (confirmOrder vendor) c
    \<and> fst (checkOrder vendor ord c) = Inr (JObj [(''order'', ord), (''confirmationId'', cid)])
    \<and> sent (snd (setOrder d vendor arg c)) =
        sent c @
        [\<lparr> req_method = ''POST'', req_url = checkOrder_url c,
            req_headers = json_headers, req_body = Some ord \<rparr>,
         \<lparr> req_method = ''POST'',
            req_url = toString (tradingUrl (urls c)) @ ''v5/order/'' @ toString cid
              @ '';jsessionid='' @ toString (session_id (session c)) @ ''?intAccount=''
              @ toString (account (session c)) @ ''&sessionId=''
              @ toString (session_id (session c)),
            req_headers = json_headers, req_body = Some ord \<rparr>]"
proof -
  from assms(1) obtain kvs where kvs: "ord = JObj kvs"
    using order_of_arg_is_object by blast
  have comp: "setOrder d vendor arg c = thenP (checkOrder vendor ord) (confirmOrder vendor) c"
    using assms(1) by (simp add: setOrder_def)
  note chk = checkOrder_ok [where vendor = vendor and c = c, OF kvs assms(2-6)]
  have "sent (snd (thenP (checkOrder vendor ord) (confirmOrder vendor) c)) =
        sent c @
        [\<lparr> req_method = ''POST'', req_url = checkOrder_url c,
            req_headers = json_headers, req_body = Some ord \<rparr>,
         \<lparr> req_method = ''POST'',
            req_url = confirmOrder_url c cid,
            req_headers = json_headers, req_body = Some ord \<rparr>]"
    by (simp add: thenP_def chk confirmOrder_sent confirmOrder_url_def)
  with comp chk show ?thesis
    by (simp add: confirmOrder_url_def)
qed

theorem setOrder_check_then_confirm_witness:
  "setOrder simple_deps check_then_fail order_example logged_in =
     thenP (checkOrder check_then_fail
              (JObj [(''buySell'', JNum 0), (''orderType'', JNum 0),
                     (''productId'', JStr ''8066561''), (''size'', JNum 1),
                     (''timeType'', JNum 1), (''price'', JNum 10),
                     (''stopPrice'', JUndefined)]))
       (confirmOrder check_then_fail) logged_in
   \<and> map req_url (sent (snd (setOrder simple_deps check_then_fail order_example logged_in))) =
       [''https://tr/v5/checkOrder;jsessionid=S1?intAccount=42&sessionId=S1'',
        ''https://tr/v5/order/abc-1;jsessionid=S1?intAccount=42&sessionId=S1'']
   \<and> fst (setOrder simple_deps check_then_fail order_example logged_in) =
       Inl (Error_text (JStr ''rejected''))"
proof -
  have h1: "order_of_arg simple_deps order_example =
      Inr (JObj [(''buySell'', JNum 0), (''orderType'', JNum 0),
                 (''productId'', JStr ''8066561''), (''size'', JNum 1),
                 (''timeType'', JNum 1), (''price'', JNum 10), (''stopPrice'', JUndefined)])"
    by (simp add: order_of_arg_def order_example_def simple_deps_def default_to_def obj_get_def)
  have h2: "check_then_fail (sent logged_in @ [req]) =
      Response \<lparr> status = 200, statusText = ''OK'', set_cookie = None,
         json_body = Some (JObj [(''data'', JObj [(''confirmationId'', JStr ''abc-1'')])]) \<rparr>" for req
    by (simp add: check_then_fail_def ok_response_def logged_in_def)
  have h3: "res_ok \<lparr> status = 200, statusText = ''OK'', set_cookie = None,
         json_body = Some (JObj [(''data'', JObj [(''confirmationId'', JStr ''abc-1'')])]) \<rparr>"
    by (simp add: res_ok_def)
  have h4: "json_body \<lparr> status = 200, statusText = ''OK'', set_cookie = None,
         json_body = Some (JObj [(''data'', JObj [(''confirmationId'', JStr ''abc-1'')])]) \<rparr>
      = Some (JObj [(''data'', JObj [(''confirmationId'', JStr ''abc-1'')])])"
    by simp
  have h5: "get_prop (JObj [(''data'', JObj [(''confirmationId'', JStr ''abc-1'')])]) ''data''
      = Inr (JObj [(''confirmationId'', JStr ''abc-1'')])"
    by (simp add: obj_get_def)
  have h6: "get_prop (JObj [(''confirmationId'', JStr ''abc-1'')]) ''confirmationId''
      = Inr (JStr ''abc-1'')"
    by (simp add: obj_get_def)
  note r = setOrder_check_then_confirm
    [where vendor = check_then_fail and c = logged_in, OF h1 h2 h3 h4 h5 h6]
  have s0: "sent logged_in = []"
    by (simp add: logged_in_def)
  have u1: "checkOrder_url logged_in =
      ''https://tr/v5/checkOrder;jsessionid=S1?intAccount=42&sessionId=S1''"
    by code_simp
  have u2: "toString (tradingUrl (urls logged_in)) @ ''v5/order/'' @ toString (JStr ''abc-1'')
      @ '';jsessionid='' @ toString (session_id (session logged_in)) @ ''?intAccount=''
      @ toString (account (session logged_in)) @ ''&sessionId=''
      @ toString (session_id (session logged_in)) =
      ''https://tr/v5/order/abc-1;jsessionid=S1?intAccount=42&sessionId=S1''"
    by code_simp
  have f: "fst (setOrder simple_deps check_then_fail order_example logged_in) =
      Inl (Error_text (JStr ''rejected''))"
    by code_simp
  show ?thesis
    apply (intro conjI)
      apply (rule conjunct1 [OF r])
     apply (simp only: conjunct2 [OF conjunct2 [OF r]] s0 u1 u2)
     apply simp
    apply (rule f)
    done
qed

subsection \<open>The quote poller: interpreting the rows\<close>




lemma lcFirst_strip:
  "lcFirst (slice_from (issueId @ sep # rest) (length issueId + 1)) = lcFirst rest"
  by (simp add: slice_from_def)




text \<open>
  A row of kind \<open>un\<close> or \<open>us\<close> whose stream key no earlier row has mapped stores its
  value under the property \<open>undefined\<close>.
\<close>

lemma processRow_unmapped:
  assumes "get_prop row ''m'' = Inr (JStr ''un'')" and "get_prop row ''v'' = Inr v"
    and "get_index v 0 = Inr (JNum k)" and "obj_get keys (show_int k) = None"
    and "get_index v 1 = Inr x"
  shows "processRow issueId (prices, keys) row = Inr (obj_set prices ''undefined'' x, keys)"
  using assms by (simp add: processRow_def)

subsection \<open>The quote poller: retries\<close>

lemma getAskBidPrice_retry:
  assumes "fst (subscribe_and_poll vendor issueId c) = Inr (JArr rows)"
    and "heartbeat_only rows = Inr True" and "n < 3"
  shows "getAskBidPrice vendor issueId n c =
         getAskBidPrice vendor issueId (n + 1) (snd (subscribe_and_poll vendor issueId c))"
  using assms
  by (cases "subscribe_and_poll vendor issueId c")
     (simp add: getAskBidPrice.simps [of vendor issueId n c])

lemma getAskBidPrice_last_round:
  "getAskBidPrice vendor issueId 3 c =
     (case subscribe_and_poll vendor issueId c of
        (Inl e, c') \<Rightarrow> (Inl e, c')
      | (Inr res, c') \<Rightarrow>
          (case res of
             JArr rows \<Rightarrow>
               (case heartbeat_only rows of
                  Inl e \<Rightarrow> (Inl e, c')
                | Inr True \<Rightarrow> (Inl (Tried_3_times res), c')
                | Inr False \<Rightarrow> (process_rows issueId rows, c'))
           | _ \<Rightarrow> (Inl (Bad_result res), c')))"
  by (simp add: getAskBidPrice.simps [of vendor issueId 3 c]
      split: prod.split sum.split jsvalue.split bool.split)

lemma getAskBidPrice_data:
  assumes "fst (subscribe_and_poll vendor issueId c) = Inr (JArr rows)"
    and "heartbeat_only rows = Inr False"
  shows "getAskBidPrice vendor issueId n c =
         (process_rows issueId rows, snd (subscribe_and_poll vendor issueId c))"
  using assms
  by (cases "subscribe_and_poll vendor issueId c")
     (simp add: getAskBidPrice.simps [of vendor issueId n c])

text \<open>
  A heartbeat followed by a response with data: the second round, with a session of
  its own, decides the result.
\<close>

lemma getAskBidPrice_heartbeat_then_data:
  assumes "fst (subscribe_and_poll vendor issueId c0) = Inr (JArr r1)"
    and "heartbeat_only r1 = Inr True"
    and "fst (subscribe_and_poll vendor issueId (snd (subscribe_and_poll vendor issueId c0)))
         = Inr (JArr r2)"
    and "heartbeat_only r2 = Inr False"
  shows "fst (getAskBidPrice vendor issueId 0 c0) = process_rows issueId r2"
  using getAskBidPrice_retry [OF assms(1,2), of 0] getAskBidPrice_data [OF assms(3,4)]
  by simp

text \<open>
  Four heartbeats in a row end the call with the error whose message says
  \<open>Tried 3 times\<close>, after twelve requests (four rounds).
\<close>

lemma getAskBidPrice_four_heartbeats:
  "fst (getAskBidPrice (heartbeats_then_data 4) ''360015751'' 0 logged_in) =
     Inl (Tried_3_times heartbeat)
   \<and> length (sent (snd (getAskBidPrice (heartbeats_then_data 4) ''360015751'' 0 logged_in))) = 12"
  by code_simp

text \<open>
  Claim C1 says that three polls answering one heartbeat row each make \<open>getAskBidPrice\<close>
  fail, and that a heartbeat followed by data succeeds with the second response. The
  second part holds (\<open>getAskBidPrice_heartbeat_then_data\<close>). The first does not:
  \<open>checkData\<close> counts the round before it tests \<open>timesChecked <= 3\<close>, so after three
  heartbeats the call does not fail; it requests a fourth session and polls again, and
  that fourth response decides the result. Only a fourth heartbeat gives the error.
\<close>

theorem getAskBidPrice_polls_a_fourth_time:
  fixes vendor :: vendor and issueId :: string and c0 :: client
  defines "c1 \<equiv> snd (subscribe_and_poll vendor issueId c0)"
  defines "c2 \<equiv> snd (subscribe_and_poll vendor issueId c1)"
  defines "c3 \<equiv> snd (subscribe_and_poll vendor issueId c2)"
  assumes "fst (subscribe_and_poll vendor issueId c0) = Inr (JArr r1)"
    and "heartbeat_only r1 = Inr True"
    and "fst (subscribe_and_poll vendor issueId c1) = Inr (JArr r2)"
    and "heartbeat_only r2 = Inr True"
    and "fst (subscribe_and_poll vendor issueId c2) = Inr (JArr r3)"
    and "heartbeat_only r3 = Inr True"
  shows "getAskBidPrice vendor issueId 0 c0 =
     (case subscribe_and_poll vendor issueId c3 of
        (Inl e, c4) \<Rightarrow> (Inl e, c4)
      | (Inr res, c4) \<Rightarrow>
          (case res of
             JArr rows \<Rightarrow>
               (case heartbeat_only rows of
                  Inl e \<Rightarrow> (Inl e, c4)
                | Inr True \<Rightarrow> (Inl (Tried_3_times res), c4)
                | Inr False \<Rightarrow> (process_rows issueId rows, c4))
           | _ \<Rightarrow> (Inl (Bad_result res), c4)))"
proof -
  have s1: "getAskBidPrice vendor issueId 0 c0 = getAskBidPrice vendor issueId (0 + 1) c1"
    unfolding c1_def by (rule getAskBidPrice_retry [OF assms(4,5)]) simp
  have s2: "getAskBidPrice vendor issueId (0 + 1) c1 =
            getAskBidPrice vendor issueId (0 + 1 + 1) c2"
    unfolding c2_def by (rule getAskBidPrice_retry [OF assms(6,7)]) simp
  have s3: "getAskBidPrice vendor issueId (0 + 1 + 1) c2 =
            getAskBidPrice vendor issueId (0 + 1 + 1 + 1) c3"
    unfolding c3_def by (rule getAskBidPrice_retry [OF assms(8,9)]) simp
  have n: "(0::nat) + 1 + 1 + 1 = 3"
    by simp
  show ?thesis
    unfolding s1 s2 s3 n by (rule getAskBidPrice_last_round)
qed

theorem getAskBidPrice_polls_a_fourth_time_witness:
  "fst (getAskBidPrice (heartbeats_then_data 3) ''360015751'' 0 logged_in) =
     Inr [(''bidPrice'', JNum 12)]
   \<and> map req_url (sent (snd (getAskBidPrice (heartbeats_then_data 3) ''360015751'' 0 logged_in))) =
     [''https://degiro.quotecast.vwdservices.com/CORS/request_session?version=1.0.20170315&userToken=7'',
      ''https://degiro.quotecast.vwdservices.com/CORS/1'',
      ''https://degiro.quotecast.vwdservices.com/CORS/1'',
      ''https://degiro.quotecast.vwdservices.com/CORS/request_session?version=1.0.20170315&userToken=7'',
      ''https://degiro.quotecast.vwdservices.com/CORS/2'',
      ''https://degiro.quotecast.vwdservices.com/CORS/2'',
      ''https://degiro.quotecast.vwdservices.com/CORS/request_session?version=1.0.20170315&userToken=7'',
      ''https://degiro.quotecast.vwdservices.com/CORS/3'',
      ''https://degiro.quotecast.vwdservices.com/CORS/3'',
      ''https://degiro.quotecast.vwdservices.com/CORS/request_session?version=1.0.20170315&userToken=7'',
      ''https://degiro.quotecast.vwdservices.com/CORS/4'',
      ''https://degiro.quotecast.vwdservices.com/CORS/4'']"
proof -
  have hb: "heartbeat_only [JObj [(''m'', JStr ''h'')]] = Inr True"
    by code_simp
  have h1: "fst (subscribe_and_poll (heartbeats_then_data 3) ''360015751'' logged_in) =
      Inr (JArr [JObj [(''m'', JStr ''h'')]])"
    by code_simp
  have h2: "fst (subscribe_and_poll (heartbeats_then_data 3) ''360015751''
        (snd (subscribe_and_poll (heartbeats_then_data 3) ''360015751'' logged_in))) =
      Inr (JArr [JObj [(''m'', JStr ''h'')]])"
    by code_simp
  have h3: "fst (subscribe_and_poll (heartbeats_then_data 3) ''360015751''
        (snd (subscribe_and_poll (heartbeats_then_data 3) ''360015751''
          (snd (subscribe_and_poll (heartbeats_then_data 3) ''360015751'' logged_in))))) =
      Inr (JArr [JObj [(''m'', JStr ''h'')]])"
    by code_simp
  show ?thesis
    unfolding getAskBidPrice_polls_a_fourth_time [OF h1 hb h2 hb h3 hb]
    by code_simp
qed

subsection \<open>Order dates: a time of day\<close>

text \<open>The calendar on known dates, leap years included.\<close>

lemma calendar_checks:
  "civil_from_days 0 = (1970, 1, 1)"
  "days_from_civil 2026 11 3 = 20760"
  "civil_from_days 20760 = (2026, 11, 3)"
  "civil_from_days (days_from_civil 2024 2 28 + 1) = (2024, 2, 29)"
  "civil_from_days (days_from_civil 1900 2 28 + 1) = (1900, 3, 1)"
  "civil_from_days (days_from_civil 2000 2 28 + 1) = (2000, 2, 29)"
  "civil_from_days (- 1) = (1969, 12, 31)"
  "MakeDay 2026 12 1 = days_from_civil 2027 1 1"
  "MakeDay 2026 1 31 = days_from_civil 2026 3 3"
  by code_simp+











subsection \<open>Order dates: a day and a month\<close>

text \<open>
  Claim C2 says that a field of the form day/month (such as \<open>05/03\<close>) parses to a date
  with that day and that month, in the current year, or the year before when the
  month exceeds the current month. The code aims at this and misses it: it passes
  \<open>getYear()\<close> (the year minus 1900) and the month of the field (counted from 1) to
  the \<open>Date\<close> constructor, which takes the full year and counts months from 0, and it
  compares the month of the field with \<open>getMonth()\<close>, which counts from 0. What it
  computes is stated below; on 3 November 2026 the field \<open>05/03\<close> gives 5 April of the
  year 126.
\<close>

theorem parseOrderDate_day_month:
  assumes "\<not> includes_char s CHR '':''" and "includes_char s CHR ''/''"
    and "arg_to_number (part (split_on CHR ''/'' s) 0) = Some d"
    and "arg_to_number (part (split_on CHR ''/'' s) 1) = Some m"
  shows "parseOrderDate now (JStr s) =
     Inr (new_Date
           (Some (if MonthFromTime now < m then YearFromTime now - 1900 - 1
                  else YearFromTime now - 1900))
           (Some m) (Some d))"
proof -
  have pd: "parseOrderDate now (JStr s) =
      Inr (new_Date
            (Some (if (case arg_to_number (part (split_on CHR ''/'' s) 1) of
                         None \<Rightarrow> False | Some m \<Rightarrow> getMonth now < m)
                   then getYear now - 1 else getYear now))
            (arg_to_number (part (split_on CHR ''/'' s) 1))
            (arg_to_number (part (split_on CHR ''/'' s) 0)))"
    using assms(1,2) by (simp add: parseOrderDate_def Let_def)
  show ?thesis
    unfolding pd assms(3,4) by (simp add: getMonth_def getYear_def)
qed


theorem parseOrderDate_day_month_witness:
  "parseOrderDate 1793709000000 (JStr ''05/03'') = Inr (Some (- 58182883200000))
   \<and> YearFromTime 1793709000000 = 2026 \<and> MonthFromTime 1793709000000 = 10
   \<and> YearFromTime (- 58182883200000) = 126 \<and> MonthFromTime (- 58182883200000) = 3
   \<and> DateFromTime (- 58182883200000) = 5"
proof -
  have c: "\<not> includes_char ''05/03'' CHR '':''" "includes_char ''05/03'' CHR ''/''"
    by (simp_all add: includes_char_def)
  have d: "arg_to_number (part (split_on CHR ''/'' ''05/03'') 0) = Some 5"
    by code_simp
  have m: "arg_to_number (part (split_on CHR ''/'' ''05/03'') 1) = Some 3"
    by code_simp
  have n: "new_Date (Some 126) (Some 3) (Some 5) = Some (- 58182883200000)"
    by code_simp
  have y: "YearFromTime 1793709000000 = 2026" "MonthFromTime 1793709000000 = 10"
    "YearFromTime (- 58182883200000) = 126" "MonthFromTime (- 58182883200000) = 3"
    "DateFromTime (- 58182883200000) = 5"
    by code_simp+
  show ?thesis
    unfolding parseOrderDate_day_month [OF c d m] y by (simp add: n)
qed

subsection \<open>Deleting an order\<close>

lemma checkSuccess_not_ok: "\<not> res_ok res \<Longrightarrow> isl (checkSuccess res json)"
  by (auto simp: checkSuccess_def bindE_def split: sum.splits)

lemma deleteOrder_loose_rejects: "fst (deleteOrder_loose vendor orderId c) = Inl ReferenceError"
  by (simp add: deleteOrder_loose_def)




subsection \<open>Login and the bootstrap chain\<close>

lemma thenP_Inr:
  assumes "thenP p f c = (Inr y, c')"
  shows "\<exists>x c1. p c = (Inr x, c1) \<and> f x c1 = (Inr y, c')"
  using assms by (cases "p c") (auto simp: thenP_def split: sum.splits)

lemma fetch_Inr:
  assumes "fetch vendor req c = (Inr res, c')"
  shows "vendor (sent c @ [req]) = Response res \<and> c' = c\<lparr>sent := sent c @ [req]\<rparr>"
  using assms by (auto simp: fetch_def Let_def split: fetch_result.splits)

lemma checked_json_Inr:
  assumes "checked_json res c = (Inr json, c')"
  shows "json_body res = Some json \<and> c' = c"
  using assms
  by (auto simp: checked_json_def settle_def res_json_def checkSuccess_def bindE_def
      split: option.splits sum.splits if_splits)

lemma updateConfig_Inr:
  assumes "updateConfig vendor c = (Inr u, c')"
  shows "session c' = session c \<and> (\<exists>req. sent c' = sent c @ [req])"
proof -
  from assms obtain json c1 where
    a: "thenP (fetch vendor \<lparr> req_method = ''GET'', req_url = BASE_TRADER_URL @ ''/login/secure/config'',
                  req_headers = [(''Cookie'', ''JSESSIONID='' @ toString (session_id (session c)) @ '';'')],
                  req_body = None \<rparr>) checked_json c = (Inr json, c1)"
    and b: "(case get_prop json ''data'' of
                Inl e \<Rightarrow> (Inl e, c1)
              | Inr dat \<Rightarrow>
                  (case bindE (get_prop dat ''paUrl'') (\<lambda>u1.
                        bindE (get_prop dat ''productSearchUrl'') (\<lambda>u2.
                        bindE (get_prop dat ''productTypesUrl'') (\<lambda>u3.
                        bindE (get_prop dat ''reportingUrl'') (\<lambda>u4.
                        bindE (get_prop dat ''tradingUrl'') (\<lambda>u5.
                        bindE (get_prop dat ''vwdQuotecastServiceUrl'') (\<lambda>u6.
                          Inr \<lparr> paUrl = u1, productSearchUrl = u2, productTypesUrl = u3,
                                reportingUrl = u4, tradingUrl = u5,
                                vwdQuotecastServiceUrl = u6 \<rparr>)))))) of
                     Inl e \<Rightarrow> (Inl e, c1)
                   | Inr us \<Rightarrow> (Inr (), c1\<lparr>urls := us\<rparr>))) = (Inr u, c')"
    unfolding updateConfig_def Let_def by (blast dest: thenP_Inr)
  from a obtain res c0 where "fetch vendor \<lparr> req_method = ''GET'', req_url = BASE_TRADER_URL @ ''/login/secure/config'',
                  req_headers = [(''Cookie'', ''JSESSIONID='' @ toString (session_id (session c)) @ '';'')],
                  req_body = None \<rparr> c = (Inr res, c0)" and "checked_json res c0 = (Inr json, c1)"
    by (blast dest: thenP_Inr)
  then have c1: "session c1 = session c" "\<exists>req. sent c1 = sent c @ [req]"
    by (auto dest!: fetch_Inr checked_json_Inr)
  from b obtain us where "c' = c1\<lparr>urls := us\<rparr>"
    by (auto split: sum.splits)
  with c1 show ?thesis by simp
qed

lemma getClientInfo_Inr:
  assumes "getClientInfo vendor c = (Inr dat, c')"
  shows "session_id (session c') = session_id (session c)
    \<and> (\<exists>res json. vendor (sent c') = Response res \<and> json_body res = Some json
          \<and> get_prop json ''data'' = Inr dat
          \<and> get_prop dat ''intAccount'' = Inr (account (session c')))"
proof -
  let ?req = "GET (toString (paUrl (urls c)) @ ''client?sessionId='' @ toString (session_id (session c)))"
  from assms obtain json c1 where
    a: "thenP (fetch vendor ?req) checked_json c = (Inr json, c1)"
    and b: "(case bindE (get_prop json ''data'') (\<lambda>dat.
                   bindE (get_prop dat ''intAccount'') (\<lambda>acc.
                   bindE (get_prop dat ''id'') (\<lambda>tok. Inr (dat, acc, tok)))) of
                Inl e \<Rightarrow> (Inl e, c1)
              | Inr (dat, acc, tok) \<Rightarrow>
                  (Inr dat, c1\<lparr>session := (session c1)\<lparr>account := acc, userToken := tok,
                                                      session_data := dat\<rparr>\<rparr>)) = (Inr dat, c')"
    unfolding getClientInfo_def Let_def by (blast dest: thenP_Inr)
  from a obtain res c0 where "fetch vendor ?req c = (Inr res, c0)"
    and "checked_json res c0 = (Inr json, c1)"
    by (blast dest: thenP_Inr)
  then have c1: "session c1 = session c" "sent c1 = sent c @ [?req]"
    "vendor (sent c @ [?req]) = Response res" "json_body res = Some json"
    by (auto dest!: fetch_Inr checked_json_Inr)
  from b obtain acc tok where d: "get_prop json ''data'' = Inr dat"
    "get_prop dat ''intAccount'' = Inr acc"
    "c' = c1\<lparr>session := (session c1)\<lparr>account := acc, userToken := tok, session_data := dat\<rparr>\<rparr>"
    by (auto simp: bindE_def split: sum.splits)
  with c1 show ?thesis by simp
qed

lemma read_login_response_eq:
  "read_login_response d res c =
     (case res_json res of
        Inl e \<Rightarrow> (Inl e, c)
      | Inr json \<Rightarrow>
          (case checkSuccess res json of
             Inl e \<Rightarrow> (Inl e, c\<lparr>session := (session c)\<lparr>session_id := JSESSIONID_of d res\<rparr>\<rparr>)
           | Inr j \<Rightarrow>
               if \<not> truthy (JSESSIONID_of d res)
               then (Inl Login_nok, c\<lparr>session := (session c)\<lparr>session_id := JSESSIONID_of d res\<rparr>\<rparr>)
               else (Inr (), c\<lparr>session := (session c)\<lparr>session_id := JSESSIONID_of d res\<rparr>\<rparr>)))"
  by (simp add: read_login_response_def thenP_def settle_def Let_def split: sum.split)

lemma read_login_response_Inr:
  assumes "read_login_response d res c = (Inr u, c')"
  shows "session_id (session c') = JSESSIONID_of d res \<and> truthy (JSESSIONID_of d res)
    \<and> res_ok res \<and> sent c' = sent c"
proof (cases "res_json res")
  case (Inl e)
  with assms show ?thesis by (simp add: read_login_response_eq)
next
  case json: (Inr json)
  show ?thesis
  proof (cases "checkSuccess res json")
    case (Inl e)
    with assms json show ?thesis by (simp add: read_login_response_eq)
  next
    case (Inr j)
    with checkSuccess_not_ok [of res json] have ok: "res_ok res"
      by auto
    from assms json Inr have "truthy (JSESSIONID_of d res)"
      and "c' = c\<lparr>session := (session c)\<lparr>session_id := JSESSIONID_of d res\<rparr>\<rparr>"
      by (auto simp: read_login_response_eq split: if_splits)
    with ok show ?thesis by simp
  qed
qed

lemma truthy_JSESSIONID:
  "truthy (JSESSIONID_of d res) \<Longrightarrow> \<exists>sid. JSESSIONID_of d res = JStr sid \<and> sid \<noteq> []"
  by (auto simp: JSESSIONID_of_def split: option.splits)

text \<open>
  Claim C5 says that \<open>login\<close> fails whenever the vendor returns no session cookie or
  reports a non-success status or an error payload, and that a successful login leaves
  a non-empty \<open>session.id\<close> and the account id of the client-info response in
  \<open>session.account\<close>. One case fails: \<open>checkSuccess\<close> reads the payload only when the
  status is not a success status, so an answer with status 200, a session cookie and
  an \<open>errors\<close> payload lets the login through.
\<close>

theorem login_counterexample:
  "fst (login simple_deps (bootstrap_vendor ok_with_errors) credentials (create credentials)) =
     Inr \<lparr> session_id = JStr ''abc'', account = JNum 42, userToken = JNum 7,
           clientInfo = JNull,
           session_data = JObj [(''intAccount'', JNum 42), (''id'', JNum 7)] \<rparr>
   \<and> json_body ok_with_errors = Some (JObj [(''errors'', JArr [JObj [(''text'', JStr ''boom'')]])])"
  by code_simp

text \<open>
  Claim C5, amended. \<open>login\<close> fails whenever the vendor answers the login request with
  a status that is not a success status (with the error \<open>checkSuccess\<close> derives: the text
  of the first entry of \<open>errors\<close> when the body has one, status and status text
  otherwise), and whenever it answers with a success status and no session cookie, or
  an empty one (with \<open>login nok\<close>). For every successful login, after the bootstrap
  chain, \<open>session.id\<close> is a non-empty string, the value of the cookie, and
  \<open>session.account\<close> is the \<open>intAccount\<close> of the data the vendor sent in the
  client-info response, the last response of the chain.
\<close>

theorem login_fails_or_fills_session:
  assumes "vendor (sent c @ [login_request (login_url opts) (loginParams opts)]) = Response res"
    and "json_body res = Some json"
  shows "(\<not> res_ok res \<longrightarrow>
            (\<exists>e. checkSuccess res json = Inl e \<and> fst (login d vendor opts c) = Inl e))
    \<and> (res_ok res \<and> \<not> truthy (JSESSIONID_of d res) \<longrightarrow>
            fst (login d vendor opts c) = Inl Login_nok)
    \<and> (\<forall>s. fst (login d vendor opts c) = Inr s \<longrightarrow>
            s = session (snd (login d vendor opts c))
            \<and> (\<exists>sid. session_id s = JStr sid \<and> sid \<noteq> [] \<and> JSESSIONID_of d res = JStr sid)
            \<and> (\<exists>res3 json3 dat. vendor (sent (snd (login d vendor opts c))) = Response res3
                  \<and> json_body res3 = Some json3
                  \<and> get_prop json3 ''data'' = Inr dat
                  \<and> get_prop dat ''intAccount'' = Inr (account s)))"
proof -
  let ?req = "login_request (login_url opts) (loginParams opts)"
  let ?c0 = "c\<lparr>sent := sent c @ [?req]\<rparr>"
  have f: "fetch vendor ?req c = (Inr res, ?c0)"
    using assms(1) by (simp add: fetch_def Let_def)
  have rj: "res_json res = Inr json"
    using assms(2) by (simp add: res_json_def)
  have A: "\<exists>e. checkSuccess res json = Inl e \<and> fst (login d vendor opts c) = Inl e"
    if nok: "\<not> res_ok res"
  proof -
    from nok obtain e where e: "checkSuccess res json = Inl e"
      using checkSuccess_not_ok [of res json] by (auto simp: isl_def)
    then have "fst (login d vendor opts c) = Inl e"
      by (simp add: login_def sendLoginRequest_def thenP_def f read_login_response_eq rj)
    with e show ?thesis
      by simp
  qed
  have B: "fst (login d vendor opts c) = Inl Login_nok"
    if "res_ok res \<and> \<not> truthy (JSESSIONID_of d res)"
    using that
    by (simp add: login_def sendLoginRequest_def thenP_def f read_login_response_eq rj
        checkSuccess_def)
  have C: "s = session (snd (login d vendor opts c))
            \<and> (\<exists>sid. session_id s = JStr sid \<and> sid \<noteq> [] \<and> JSESSIONID_of d res = JStr sid)
            \<and> (\<exists>res3 json3 dat. vendor (sent (snd (login d vendor opts c))) = Response res3
                  \<and> json_body res3 = Some json3
                  \<and> get_prop json3 ''data'' = Inr dat
                  \<and> get_prop dat ''intAccount'' = Inr (account s))"
    if "fst (login d vendor opts c) = Inr s" for s
  proof -
    from that obtain cf where r: "login d vendor opts c = (Inr s, cf)"
      by (cases "login d vendor opts c") simp
    then obtain dat c3 where
      g: "thenP (thenP (thenP (fetch vendor ?req) (read_login_response d))
            (\<lambda>u. updateConfig vendor)) (\<lambda>u. getClientInfo vendor) c = (Inr dat, c3)"
      and fin: "(Inr (session c3), c3) = (Inr s, cf)"
      unfolding login_def sendLoginRequest_def by (blast dest: thenP_Inr)
    from g obtain u c2 where
      uc: "thenP (thenP (fetch vendor ?req) (read_login_response d))
            (\<lambda>u. updateConfig vendor) c = (Inr u, c2)"
      and gc: "getClientInfo vendor c2 = (Inr dat, c3)"
      by (blast dest: thenP_Inr)
    from uc obtain u' c1 where
      rl: "thenP (fetch vendor ?req) (read_login_response d) c = (Inr u', c1)"
      and up: "updateConfig vendor c1 = (Inr u, c2)"
      by (blast dest: thenP_Inr)
    from rl f have "read_login_response d res ?c0 = (Inr u', c1)"
      by (simp add: thenP_def)
    from read_login_response_Inr [OF this]
    have c1: "session_id (session c1) = JSESSIONID_of d res" "truthy (JSESSIONID_of d res)"
      by simp_all
    from updateConfig_Inr [OF up] have c2: "session c2 = session c1"
      by simp
    from getClientInfo_Inr [OF gc] obtain res3 json3 where
      c3: "session_id (session c3) = session_id (session c2)"
      "vendor (sent c3) = Response res3" "json_body res3 = Some json3"
      "get_prop json3 ''data'' = Inr dat"
      "get_prop dat ''intAccount'' = Inr (account (session c3))"
      by blast
    from fin have s: "s = session c3" "cf = c3"
      by auto
    have "s = session (snd (login d vendor opts c))"
      using r s by simp
    moreover have "\<exists>sid. session_id s = JStr sid \<and> sid \<noteq> [] \<and> JSESSIONID_of d res = JStr sid"
      using truthy_JSESSIONID [OF c1(2)] c1(1) c2 c3(1) s(1) by auto
    moreover have "\<exists>res3 json3 dat. vendor (sent (snd (login d vendor opts c))) = Response res3
                  \<and> json_body res3 = Some json3
                  \<and> get_prop json3 ''data'' = Inr dat
                  \<and> get_prop dat ''intAccount'' = Inr (account s)"
      using c3 r s by auto
    ultimately show ?thesis by blast
  qed
  from A B C show ?thesis by blast
qed



theorem login_fails_or_fills_session_witness:
  "fst (login simple_deps (bootstrap_vendor unauthorized) credentials (create credentials)) =
     Inl (Error_text (JStr ''bad credentials''))
   \<and> fst (login simple_deps (bootstrap_vendor ok_without_cookie) credentials (create credentials)) =
     Inl Login_nok
   \<and> (\<exists>sid. session_id (session (snd (login simple_deps (bootstrap_vendor ok_with_errors)
          credentials (create credentials)))) = JStr sid \<and> sid \<noteq> [])
   \<and> account (session (snd (login simple_deps (bootstrap_vendor ok_with_errors)
          credentials (create credentials)))) = JNum 42"
proof -
  have v: "bootstrap_vendor r (sent (create credentials) @ [req]) = Response r" for r req
    by (simp add: bootstrap_vendor_def create_def)
  have b1: "json_body unauthorized =
      Some (JObj [(''errors'', JArr [JObj [(''text'', JStr ''bad credentials'')]])])"
    by (simp add: unauthorized_def)
  have n1: "\<not> res_ok unauthorized"
    by (simp add: unauthorized_def res_ok_def)
  have cs: "checkSuccess unauthorized
      (JObj [(''errors'', JArr [JObj [(''text'', JStr ''bad credentials'')]])]) =
      Inl (Error_text (JStr ''bad credentials''))"
    by code_simp
  from login_fails_or_fills_session
    [where vendor = "bootstrap_vendor unauthorized" and c = "create credentials"
       and opts = credentials and d = simple_deps,
     OF v b1, THEN conjunct1, THEN mp, OF n1] cs
  have A: "fst (login simple_deps (bootstrap_vendor unauthorized) credentials (create credentials)) =
     Inl (Error_text (JStr ''bad credentials''))"
    by auto
  have b2: "json_body ok_without_cookie = Some (JObj [])"
    by (simp add: ok_without_cookie_def)
  have n2: "res_ok ok_without_cookie \<and> \<not> truthy (JSESSIONID_of simple_deps ok_without_cookie)"
    by code_simp
  note B = login_fails_or_fills_session
    [where vendor = "bootstrap_vendor ok_without_cookie" and c = "create credentials"
       and opts = credentials and d = simple_deps,
     OF v b2, THEN conjunct2, THEN conjunct1, THEN mp, OF n2]
  have b3: "json_body ok_with_errors =
      Some (JObj [(''errors'', JArr [JObj [(''text'', JStr ''boom'')]])])"
    by (simp add: ok_with_errors_def)
  have r: "fst (login simple_deps (bootstrap_vendor ok_with_errors) credentials (create credentials)) =
     Inr \<lparr> session_id = JStr ''abc'', account = JNum 42, userToken = JNum 7,
           clientInfo = JNull,
           session_data = JObj [(''intAccount'', JNum 42), (''id'', JNum 7)] \<rparr>"
    by code_simp
  note C = login_fails_or_fills_session
    [where vendor = "bootstrap_vendor ok_with_errors" and c = "create credentials"
       and opts = credentials and d = simple_deps,
     OF v b3, THEN conjunct2, THEN conjunct2, THEN spec, THEN mp, OF r]
  note e = C [THEN conjunct1, symmetric]
  show ?thesis
    using A B by (simp add: e)
qed

end
